theory Spec2Isabelle
  imports Main "HOL-Library.Word"
begin

section \<open>Go values shared by the packages\<close>

text \<open>
  A Go \<open>[]byte\<close> is a list of 8-bit words, a Go \<open>string\<close> a list of characters (Isabelle
  characters are bytes). A Go \<open>error\<close> is a value carrying the text its \<open>Error()\<close> method
  returns; \<open>nil\<close> is \<open>None\<close> of \<open>error option\<close>, and a function returning
  \<open>(T, error)\<close> returns \<open>error + T\<close>.
\<close>

type_synonym byte = "8 word"

datatype error = Error string

fun err_Error :: "error \<Rightarrow> string" where
  "err_Error (Error msg) = msg"

subsection \<open>encoding/base64: StdEncoding.EncodeToString\<close>

text \<open>
  The standard alphabet with \<open>=\<close> padding. Three source bytes are packed into a 24-bit
  value and cut into four 6-bit indices into the alphabet; a remainder of one or two bytes
  is padded with zero bits and the block is filled up with the padding character.
\<close>

definition encodeStd :: string where
  "encodeStd = ''ABCDEFGHIJKLMNOPQRSTUVWXYZabcdefghijklmnopqrstuvwxyz0123456789+/''"

definition StdPadding :: char where
  "StdPadding = CHR ''=''"

definition encode6 :: "nat \<Rightarrow> char" where
  "encode6 n = encodeStd ! (n mod 64)"

fun EncodeToString :: "byte list \<Rightarrow> string" where
  "EncodeToString (a # b # c # src) =
     (let val = unat a * 65536 + unat b * 256 + unat c
      in encode6 (val div 262144) # encode6 (val div 4096) # encode6 (val div 64) # encode6 val
           # EncodeToString src)"
| "EncodeToString [a, b] =
     (let val = unat a * 65536 + unat b * 256
      in [encode6 (val div 262144), encode6 (val div 4096), encode6 (val div 64), StdPadding])"
| "EncodeToString [a] =
     (let val = unat a * 65536
      in [encode6 (val div 262144), encode6 (val div 4096), StdPadding, StdPadding])"
| "EncodeToString [] = []"

subsection \<open>crypto/rand: Read\<close>

text \<open>
  The random source is the list of bytes the operating system will still deliver.
  \<open>rand_Read n\<close> fills a buffer of \<open>n\<close> bytes: it succeeds with exactly \<open>n\<close> bytes, or
  fails with an error when the source cannot deliver them (and stays failed).
\<close>

type_synonym rand_Reader = "byte list"

definition rand_Read :: "nat \<Rightarrow> rand_Reader \<Rightarrow> (error + byte list) \<times> rand_Reader" where
  "rand_Read n pool =
     (if n \<le> length pool then (Inr (take n pool), drop n pool)
      else (Inl (Error ''crypto/rand: read failed''), []))"

section \<open>Package config\<close>

subsection \<open>generateKey\<close>

definition generateKey :: "rand_Reader \<Rightarrow> string \<times> rand_Reader" where
  "generateKey pool =
     (case rand_Read 32 pool of
        (Inl err, pool') \<Rightarrow> (''add-your-key-to-here'', pool')
      | (Inr key, pool') \<Rightarrow> (EncodeToString key, pool'))"

subsection \<open>The configuration registry (github.com/spf13/viper) and the operating system\<close>

text \<open>
  The package keeps its settings in viper's process-wide registry. The registry is modelled
  as far as the package drives it: the search paths, name and type of the configuration
  file, the file once found, the defaults, the environment bindings, the settings read from
  the configuration file, and the automatic-environment switch. Keys are case-insensitive
  (stored in lower case) and name nested settings by dotted paths; the nested maps of the
  library are kept flat, as maps from the dotted path of a setting to its value, so that a
  key that names a section holds no value of its own.
\<close>

datatype cfg_value = VString string | VInt int | VBool bool

record viper =
  configPaths :: "string list"
  configName :: string
  configType_v :: string
  configFile :: string
  env :: "string \<rightharpoonup> string"
  defaults :: "string \<rightharpoonup> cfg_value"
  config :: "string \<rightharpoonup> cfg_value"
  automaticEnvApplied :: bool

text \<open>
  A configuration file is modelled by what reading it gives: its settings (keyed by
  lower-case dotted paths), or the message of the parser that rejects it. The settings of
  a file are its leaves, and a leaf is a string, an integer or a truth value: a file in
  which a key that the package decodes names a section or holds a list is outside the
  model.
\<close>

datatype cfg_file = Settings "string \<rightharpoonup> cfg_value" | Malformed string

text \<open>
  What \<open>Init\<close> reads and writes outside its arguments: the registry, the files, the
  process environment, whether the file system refuses writes, and the random source.
\<close>

record world =
  vp :: viper
  files :: "string \<rightharpoonup> cfg_file"
  environ :: "string \<rightharpoonup> string"
  readonly :: bool
  entropy :: rand_Reader

fun toLowerChar :: "char \<Rightarrow> char" where
  "toLowerChar (Char b0 b1 b2 b3 b4 b5 b6 b7) =
     (if 65 \<le> (of_char (Char b0 b1 b2 b3 b4 b5 b6 b7) :: nat)
         \<and> (of_char (Char b0 b1 b2 b3 b4 b5 b6 b7) :: nat) \<le> 90
      then Char b0 b1 b2 b3 b4 True b6 b7
      else Char b0 b1 b2 b3 b4 b5 b6 b7)"

fun toUpperChar :: "char \<Rightarrow> char" where
  "toUpperChar (Char b0 b1 b2 b3 b4 b5 b6 b7) =
     (if 97 \<le> (of_char (Char b0 b1 b2 b3 b4 b5 b6 b7) :: nat)
         \<and> (of_char (Char b0 b1 b2 b3 b4 b5 b6 b7) :: nat) \<le> 122
      then Char b0 b1 b2 b3 b4 False b6 b7
      else Char b0 b1 b2 b3 b4 b5 b6 b7)"

definition ToLower :: "string \<Rightarrow> string" where
  "ToLower s = map toLowerChar s"

definition ToUpper :: "string \<Rightarrow> string" where
  "ToUpper s = map toUpperChar s"

text \<open>
  Paths are taken as absolute and already clean: joining puts a separator between two
  non-empty elements. The extension of a path is what follows the last dot of its last
  element, with the dot; its base is its last element.
\<close>

definition filepath_Join :: "string \<Rightarrow> string \<Rightarrow> string" where
  "filepath_Join a b = (if a = [] then b else if b = [] then a else a @ ''/'' @ b)"

fun extFrom :: "string \<Rightarrow> string \<Rightarrow> string" where
  "extFrom ext [] = ext"
| "extFrom ext (c # cs) =
     (if c = CHR ''/'' then extFrom [] cs
      else if c = CHR ''.'' then extFrom (c # cs) cs
      else extFrom ext cs)"

definition filepath_Ext :: "string \<Rightarrow> string" where
  "filepath_Ext path = extFrom [] path"

fun baseFrom :: "string \<Rightarrow> string \<Rightarrow> string" where
  "baseFrom base [] = base"
| "baseFrom base (c # cs) = (if c = CHR ''/'' then baseFrom [] cs else baseFrom (base @ [c]) cs)"

definition filepath_Base :: "string \<Rightarrow> string" where
  "filepath_Base path = baseFrom [] path"

text \<open>
  \<open>AddConfigPath\<close> ignores the empty path and a path it already has; \<open>SetConfigName\<close> and
  \<open>SetConfigType\<close> ignore the empty string, and a new name forgets the file found before.
\<close>

definition AddConfigPath :: "string \<Rightarrow> viper \<Rightarrow> viper" where
  "AddConfigPath p v =
     (if p \<noteq> [] \<and> p \<notin> set (configPaths v) then v\<lparr>configPaths := configPaths v @ [p]\<rparr> else v)"

definition SetConfigName :: "string \<Rightarrow> viper \<Rightarrow> viper" where
  "SetConfigName n v = (if n \<noteq> [] then v\<lparr>configName := n, configFile := []\<rparr> else v)"

definition SetConfigType :: "string \<Rightarrow> viper \<Rightarrow> viper" where
  "SetConfigType t v = (if t \<noteq> [] then v\<lparr>configType_v := t\<rparr> else v)"

definition BindEnv :: "string \<Rightarrow> string \<Rightarrow> viper \<Rightarrow> viper" where
  "BindEnv key name v = v\<lparr>env := (env v)(ToLower key \<mapsto> name)\<rparr>"

definition SetDefault :: "string \<Rightarrow> cfg_value \<Rightarrow> viper \<Rightarrow> viper" where
  "SetDefault key val v = v\<lparr>defaults := (defaults v)(ToLower key \<mapsto> val)\<rparr>"

definition AutomaticEnv :: "viper \<Rightarrow> viper" where
  "AutomaticEnv v = v\<lparr>automaticEnvApplied := True\<rparr>"

text \<open>An environment variable that is set to the empty string counts as unset.\<close>

definition getEnv :: "(string \<rightharpoonup> string) \<Rightarrow> string \<Rightarrow> string option" where
  "getEnv e name = (case e name of None \<Rightarrow> None | Some val \<Rightarrow> if val = [] then None else Some val)"

text \<open>
  The parent keys of a dotted key, shortest first: \<open>a\<close> and \<open>a.b\<close> for \<open>a.b.c\<close>. A key is
  shadowed in a source when that source gives one of its parent keys a value of its own:
  the key then has no value in that source nor in any source of lower priority.
\<close>

fun parentKeysFrom :: "string \<Rightarrow> string \<Rightarrow> string list" where
  "parentKeysFrom pre [] = []"
| "parentKeysFrom pre (c # cs) =
     (if c = CHR ''.'' then pre # parentKeysFrom (pre @ [c]) cs
      else parentKeysFrom (pre @ [c]) cs)"

definition parentKeys :: "string \<Rightarrow> string list" where
  "parentKeys key = parentKeysFrom [] key"

definition isPathShadowedInAutoEnv :: "(string \<rightharpoonup> string) \<Rightarrow> string \<Rightarrow> bool" where
  "isPathShadowedInAutoEnv e key = list_ex (\<lambda>parentKey. getEnv e (ToUpper parentKey) \<noteq> None) (parentKeys key)"

definition isPathShadowedInFlatMap :: "(string \<rightharpoonup> 'a) \<Rightarrow> string \<Rightarrow> bool" where
  "isPathShadowedInFlatMap m key = list_ex (\<lambda>parentKey. m parentKey \<noteq> None) (parentKeys key)"

definition isPathShadowedInDeepMap :: "(string \<rightharpoonup> cfg_value) \<Rightarrow> string \<Rightarrow> bool" where
  "isPathShadowedInDeepMap m key = list_ex (\<lambda>parentKey. m parentKey \<noteq> None) (parentKeys key)"

text \<open>
  The lookup order of the registry (\<open>find\<close>): the environment variable named after the key
  (once \<open>AutomaticEnv\<close> is on), the environment variable bound to the key, the configuration
  file, the default; after each source, a key shadowed in that source has no value.
\<close>

definition viper_find :: "viper \<Rightarrow> (string \<rightharpoonup> string) \<Rightarrow> string \<Rightarrow> cfg_value option" where
  "viper_find v e key =
     (let lcaseKey = ToLower key in
      case (if automaticEnvApplied v then getEnv e (ToUpper lcaseKey) else None) of
        Some val \<Rightarrow> Some (VString val)
      | None \<Rightarrow>
          if automaticEnvApplied v \<and> isPathShadowedInAutoEnv e lcaseKey then None
          else
          (case (case env v lcaseKey of None \<Rightarrow> None | Some name \<Rightarrow> getEnv e name) of
             Some val \<Rightarrow> Some (VString val)
           | None \<Rightarrow>
               if isPathShadowedInFlatMap (env v) lcaseKey then None
               else
               (case config v lcaseKey of
                  Some val \<Rightarrow> Some val
                | None \<Rightarrow>
                    if isPathShadowedInDeepMap (config v) lcaseKey then None
                    else defaults v lcaseKey)))"

text \<open>
  Conversions of the libraries that depend on their version (text to number, text to
  truth value, number to text, the quoting of a string as a Go literal) are parameters of
  the model.
\<close>

record strconv =
  ParseInt :: "string \<Rightarrow> int option"
  ParseBool :: "string \<Rightarrow> bool option"
  FormatInt :: "int \<Rightarrow> string"
  Quote :: "string \<Rightarrow> string"

fun ToString :: "strconv \<Rightarrow> cfg_value \<Rightarrow> string" where
  "ToString sc (VString s) = s"
| "ToString sc (VInt i) = FormatInt sc i"
| "ToString sc (VBool b) = (if b then ''true'' else ''false'')"

definition GetString :: "strconv \<Rightarrow> viper \<Rightarrow> (string \<rightharpoonup> string) \<Rightarrow> string \<Rightarrow> string" where
  "GetString sc v e key = (case viper_find v e key of None \<Rightarrow> [] | Some val \<Rightarrow> ToString sc val)"

text \<open>
  The keys the registry knows: the bound keys, the keys of the configuration file that no
  bound key shadows, and the keys with a default that neither a bound key nor a key of the
  file shadows. \<open>AllSettings\<close> reports the value of each of them that has one.
\<close>

definition AllKeys :: "viper \<Rightarrow> string \<Rightarrow> bool" where
  "AllKeys v k =
     (env v k \<noteq> None
      \<or> (config v k \<noteq> None \<and> \<not> isPathShadowedInFlatMap (env v) k)
      \<or> (defaults v k \<noteq> None \<and> \<not> isPathShadowedInFlatMap (env v) k
            \<and> \<not> isPathShadowedInDeepMap (config v) k))"

definition AllSettings :: "viper \<Rightarrow> (string \<rightharpoonup> string) \<Rightarrow> (string \<rightharpoonup> cfg_value)" where
  "AllSettings v e = (\<lambda>k. if AllKeys v k then viper_find v e k else None)"

text \<open>
  The search for the configuration file: in each configuration path in turn, the file
  named \<open>configName\<close> with the first of the supported extensions for which a file exists,
  else (when a type is set) the file of that name without an extension. The file found is
  remembered. Whatever its extension, the file is read in the type that is set. The
  extensions are those of the library's current releases (earlier ones end the list at
  \<open>hcl\<close>).
\<close>

definition SupportedExts :: "string list" where
  "SupportedExts = [''json'', ''toml'', ''yaml'', ''yml'', ''properties'', ''props'', ''prop'',
     ''hcl'', ''tfvars'', ''dotenv'', ''env'', ''ini'']"

definition searchInPath :: "viper \<Rightarrow> (string \<rightharpoonup> cfg_file) \<Rightarrow> string \<Rightarrow> string" where
  "searchInPath v fs dir =
     (case List.find (\<lambda>ext. fs (filepath_Join dir (configName v @ ''.'' @ ext)) \<noteq> None) SupportedExts of
        Some ext \<Rightarrow> filepath_Join dir (configName v @ ''.'' @ ext)
      | None \<Rightarrow>
          if configType_v v \<noteq> [] \<and> fs (filepath_Join dir (configName v)) \<noteq> None
          then filepath_Join dir (configName v)
          else [])"

fun joinWith :: "string \<Rightarrow> string list \<Rightarrow> string" where
  "joinWith sep [] = []"
| "joinWith sep [x] = x"
| "joinWith sep (x # y # ys) = x @ sep @ joinWith sep (y # ys)"

definition ConfigFileNotFoundError :: "strconv \<Rightarrow> string \<Rightarrow> string list \<Rightarrow> error" where
  "ConfigFileNotFoundError sc name locations =
     Error (''Config File '' @ Quote sc name @ '' Not Found in '' @
            Quote sc (''['' @ joinWith '' '' locations @ '']''))"

definition findConfigFile :: "strconv \<Rightarrow> viper \<Rightarrow> (string \<rightharpoonup> cfg_file) \<Rightarrow> error + string" where
  "findConfigFile sc v fs =
     (case List.find (\<lambda>found. found \<noteq> []) (map (searchInPath v fs) (configPaths v)) of
        Some found \<Rightarrow> Inr found
      | None \<Rightarrow> Inl (ConfigFileNotFoundError sc (configName v) (configPaths v)))"

definition getConfigFile :: "strconv \<Rightarrow> viper \<Rightarrow> (string \<rightharpoonup> cfg_file)
    \<Rightarrow> (error + string) \<times> viper" where
  "getConfigFile sc v fs =
     (if configFile v = [] then
        (case findConfigFile sc v fs of
           Inl err \<Rightarrow> (Inl err, v)
         | Inr cf \<Rightarrow> (Inr cf, v\<lparr>configFile := cf\<rparr>))
      else (Inr (configFile v), v))"

definition getConfigType :: "strconv \<Rightarrow> viper \<Rightarrow> (string \<rightharpoonup> cfg_file) \<Rightarrow> string" where
  "getConfigType sc v fs =
     (if configType_v v \<noteq> [] then configType_v v
      else case fst (getConfigFile sc v fs) of
             Inl err \<Rightarrow> []
           | Inr cf \<Rightarrow> drop 1 (filepath_Ext cf))"

definition UnsupportedConfigError :: "strconv \<Rightarrow> string \<Rightarrow> error" where
  "UnsupportedConfigError sc t = Error (''Unsupported Config Type '' @ Quote sc t)"

definition ReadInConfig :: "strconv \<Rightarrow> viper \<Rightarrow> (string \<rightharpoonup> cfg_file) \<Rightarrow> error option \<times> viper" where
  "ReadInConfig sc v fs =
     (case getConfigFile sc v fs of
        (Inl err, v') \<Rightarrow> (Some err, v')
      | (Inr filename, v') \<Rightarrow>
          if getConfigType sc v' fs \<notin> set SupportedExts
          then (Some (UnsupportedConfigError sc (getConfigType sc v' fs)), v')
          else
          (case fs filename of
             None \<Rightarrow> (Some (Error (''open '' @ filename @ '': no such file or directory'')), v')
           | Some (Malformed msg) \<Rightarrow> (Some (Error (''While parsing config: '' @ msg)), v')
           | Some (Settings m) \<Rightarrow> (None, v'\<lparr>config := m\<rparr>)))"

text \<open>
  \<open>WriteConfig\<close> writes the settings of the registry to the configuration file, in the
  type its extension names (the type that is set when it has none).
\<close>

definition WriteConfig :: "strconv \<Rightarrow> world \<Rightarrow> error option \<times> world" where
  "WriteConfig sc w =
     (case getConfigFile sc (vp w) (files w) of
        (Inl err, v') \<Rightarrow> (Some err, w\<lparr>vp := v'\<rparr>)
      | (Inr filename, v') \<Rightarrow>
          (let t = (if filepath_Ext filename \<noteq> [] \<and> filepath_Ext filename \<noteq> filepath_Base filename
                    then drop 1 (filepath_Ext filename)
                    else configType_v v')
           in if t = [] then
                (Some (Error (''config type could not be determined for '' @ filename)), w\<lparr>vp := v'\<rparr>)
              else if t \<notin> set SupportedExts then (Some (UnsupportedConfigError sc t), w\<lparr>vp := v'\<rparr>)
              else if readonly w then
                (Some (Error (''open '' @ filename @ '': read-only file system'')), w\<lparr>vp := v'\<rparr>)
              else (None, w\<lparr>vp := v',
                             files := (files w)(filename \<mapsto> Settings (AllSettings v' (environ w)))\<rparr>)))"

text \<open>\<open>os.Stat\<close> reports only whether the file is there; \<open>os.Create\<close> leaves an empty file.\<close>

definition ErrNotExist :: error where
  "ErrNotExist = Error ''file does not exist''"

definition os_Stat :: "world \<Rightarrow> string \<Rightarrow> error option" where
  "os_Stat w path = (if files w path = None then Some ErrNotExist else None)"

definition os_IsNotExist :: "error option \<Rightarrow> bool" where
  "os_IsNotExist err = (err = Some ErrNotExist)"

definition os_Create :: "string \<Rightarrow> world \<Rightarrow> world" where
  "os_Create path w =
     (if readonly w then w else w\<lparr>files := (files w)(path \<mapsto> Settings Map.empty)\<rparr>)"

text \<open>The registry of a process that has not configured anything yet.\<close>

definition viper_New :: viper where
  "viper_New = \<lparr>configPaths = [], configName = ''config'', configType_v = [], configFile = [],
     env = Map.empty, defaults = Map.empty, config = Map.empty, automaticEnvApplied = False\<rparr>"

subsection \<open>The configuration structs\<close>

text \<open>
  The \<open>default:"..."\<close> tags on the struct fields are not read by anything the package calls:
  defaults come from \<open>setDefaults\<close> alone. A field whose key has no setting keeps Go's
  zero value.
\<close>

record ServerConfiguration =
  Env :: string
  Port :: string
  Domain :: string
  Dir :: string
  Passphrase :: string
  Secret :: string
  Timeout :: int
  GeneratedPasswordLength :: int
  AccessTokenExpireDuration :: string
  RefreshTokenExpireDuration :: string
  APIKey :: string

record DatabaseConfiguration =
  Name :: string
  Username :: string
  Password :: string
  Host :: string
  Port :: string
  LogMode :: bool
  SSLMode :: string

record EmailConfiguration =
  Host :: string
  Port :: string
  Username :: string
  Password :: string
  From :: string
  Admin :: string

record Configuration =
  Server :: ServerConfiguration
  Database :: DatabaseConfiguration
  Email :: EmailConfiguration

subsection \<open>Decoding the settings into the struct (viper.Unmarshal)\<close>

text \<open>
  The decoder converts weakly: a number or truth value is accepted for a string field, a
  string is parsed for a number or truth-value field, and only a string that does not parse
  is an error. A section whose key holds a value of its own, in place of the settings below
  it, cannot be decoded into its struct. (Should the environment at the same time supply a
  setting below that key, the library lets the order in which a Go map is traversed decide
  which of the two the decoder sees; the model takes the value.) The texts of the decoder's
  errors stand for the library's, which name the field.
\<close>

fun decodeString :: "strconv \<Rightarrow> cfg_value option \<Rightarrow> string" where
  "decodeString sc None = []"
| "decodeString sc (Some (VString s)) = s"
| "decodeString sc (Some (VInt i)) = FormatInt sc i"
| "decodeString sc (Some (VBool b)) = (if b then ''1'' else ''0'')"

fun decodeInt :: "strconv \<Rightarrow> cfg_value option \<Rightarrow> error + int" where
  "decodeInt sc None = Inr 0"
| "decodeInt sc (Some (VInt i)) = Inr i"
| "decodeInt sc (Some (VBool b)) = Inr (if b then 1 else 0)"
| "decodeInt sc (Some (VString s)) =
     (case ParseInt sc s of None \<Rightarrow> Inl (Error (''cannot parse as int: '' @ s)) | Some i \<Rightarrow> Inr i)"

fun decodeBool :: "strconv \<Rightarrow> cfg_value option \<Rightarrow> error + bool" where
  "decodeBool sc None = Inr False"
| "decodeBool sc (Some (VBool b)) = Inr b"
| "decodeBool sc (Some (VInt i)) = Inr (i \<noteq> 0)"
| "decodeBool sc (Some (VString s)) =
     (case ParseBool sc s of None \<Rightarrow> Inl (Error (''cannot parse as bool: '' @ s)) | Some b \<Rightarrow> Inr b)"

definition Unmarshal :: "strconv \<Rightarrow> viper \<Rightarrow> (string \<rightharpoonup> string) \<Rightarrow> error + Configuration" where
  "Unmarshal sc v e =
     (let st = AllSettings v e in
      if st ''server'' \<noteq> None \<or> st ''database'' \<noteq> None \<or> st ''email'' \<noteq> None
      then Inl (Error ''expected a map'')
      else
      case decodeInt sc (st ''server.timeout'') of
        Inl err \<Rightarrow> Inl err
      | Inr timeout \<Rightarrow>
      (case decodeInt sc (st ''server.generatedpasswordlength'') of
        Inl err \<Rightarrow> Inl err
      | Inr generatedPasswordLength \<Rightarrow>
      (case decodeBool sc (st ''database.logmode'') of
        Inl err \<Rightarrow> Inl err
      | Inr logMode \<Rightarrow>
          Inr \<lparr>Server = \<lparr>Env = decodeString sc (st ''server.env''),
                 ServerConfiguration.Port = decodeString sc (st ''server.port''),
                 Domain = decodeString sc (st ''server.domain''),
                 Dir = decodeString sc (st ''server.dir''),
                 Passphrase = decodeString sc (st ''server.passphrase''),
                 Secret = decodeString sc (st ''server.secret''),
                 Timeout = timeout,
                 GeneratedPasswordLength = generatedPasswordLength,
                 AccessTokenExpireDuration = decodeString sc (st ''server.accesstokenexpireduration''),
                 RefreshTokenExpireDuration = decodeString sc (st ''server.refreshtokenexpireduration''),
                 APIKey = decodeString sc (st ''server.apikey'')\<rparr>,
               Database = \<lparr>Name = decodeString sc (st ''database.name''),
                 DatabaseConfiguration.Username = decodeString sc (st ''database.username''),
                 DatabaseConfiguration.Password = decodeString sc (st ''database.password''),
                 DatabaseConfiguration.Host = decodeString sc (st ''database.host''),
                 DatabaseConfiguration.Port = decodeString sc (st ''database.port''),
                 LogMode = logMode,
                 SSLMode = decodeString sc (st ''database.sslmode'')\<rparr>,
               Email = \<lparr>EmailConfiguration.Host = decodeString sc (st ''email.host''),
                 EmailConfiguration.Port = decodeString sc (st ''email.port''),
                 EmailConfiguration.Username = decodeString sc (st ''email.username''),
                 EmailConfiguration.Password = decodeString sc (st ''email.password''),
                 From = decodeString sc (st ''email.from''),
                 Admin = decodeString sc (st ''email.admin'')\<rparr>\<rparr>)))"

subsection \<open>initializeConfig, bindEnvs, setDefaults, readConfiguration, Init\<close>

definition configFileExt :: string where
  "configFileExt = ''.yml''"

definition configType :: string where
  "configType = ''yaml''"

definition initializeConfig :: "string \<Rightarrow> string \<Rightarrow> viper \<Rightarrow> viper" where
  "initializeConfig configPath configName' v =
     SetConfigType configType (SetConfigName configName' (AddConfigPath configPath v))"

definition bindEnvs :: "viper \<Rightarrow> viper" where
  "bindEnvs v0 =
     (let v = BindEnv ''server.env'' ''PW_ENV'' v0;
          v = BindEnv ''server.port'' ''PORT'' v;
          v = BindEnv ''server.domain'' ''DOMAIN'' v;
          v = BindEnv ''server.passphrase'' ''PW_SERVER_PASSPHRASE'' v;
          v = BindEnv ''server.secret'' ''PW_SERVER_SECRET'' v;
          v = BindEnv ''server.timeout'' ''PW_SERVER_TIMEOUT'' v;
          v = BindEnv ''server.generatedPasswordLength'' ''PW_SERVER_GENERATED_PASSWORD_LENGTH'' v;
          v = BindEnv ''server.accessTokenExpireDuration'' ''PW_SERVER_ACCESS_TOKEN_EXPIRE_DURATION'' v;
          v = BindEnv ''server.refreshTokenExpireDuration'' ''PW_SERVER_REFRESH_TOKEN_EXPIRE_DURATION'' v;
          v = BindEnv ''server.apiKey'' ''PW_SERVER_API_KEY'' v;
          v = BindEnv ''server.recaptcha'' ''PW_SERVER_RECAPTCHA'' v;
          v = BindEnv ''database.name'' ''PW_DB_NAME'' v;
          v = BindEnv ''database.username'' ''PW_DB_USERNAME'' v;
          v = BindEnv ''database.password'' ''PW_DB_PASSWORD'' v;
          v = BindEnv ''database.host'' ''PW_DB_HOST'' v;
          v = BindEnv ''database.port'' ''PW_DB_PORT'' v;
          v = BindEnv ''database.logmode'' ''PW_DB_LOG_MODE'' v;
          v = BindEnv ''database.sslmode'' ''PW_DB_SSL_MODE'' v;
          v = BindEnv ''email.host'' ''PW_EMAIL_HOST'' v;
          v = BindEnv ''email.port'' ''PW_EMAIL_PORT'' v;
          v = BindEnv ''email.username'' ''PW_EMAIL_USERNAME'' v;
          v = BindEnv ''email.password'' ''PW_EMAIL_PASSWORD'' v;
          v = BindEnv ''email.fromEmail'' ''PW_EMAIL_FROM_EMAIL'' v;
          v = BindEnv ''email.fromName'' ''PW_EMAIL_FROM_NAME'' v;
          v = BindEnv ''email.apiKey'' ''PW_EMAIL_API_KEY'' v
      in v)"

text \<open>
  \<open>setDefaults\<close> calls \<open>generateKey\<close> three times, in the order of its statements: for the
  passphrase, the secret and the API key.
\<close>

definition setDefaults :: "viper \<times> rand_Reader \<Rightarrow> viper \<times> rand_Reader" where
  "setDefaults vr =
     (let (v0, pool0) = vr;
          v = SetDefault ''server.env'' (VString ''prod'') v0;
          v = SetDefault ''server.port'' (VString ''3625'') v;
          v = SetDefault ''server.domain'' (VString ''https://vault.passwall.io'') v;
          (passphrase, pool1) = generateKey pool0;
          v = SetDefault ''server.passphrase'' (VString passphrase) v;
          (secret, pool2) = generateKey pool1;
          v = SetDefault ''server.secret'' (VString secret) v;
          v = SetDefault ''server.timeout'' (VInt 24) v;
          v = SetDefault ''server.generatedPasswordLength'' (VInt 16) v;
          v = SetDefault ''server.accessTokenExpireDuration'' (VString ''30m'') v;
          v = SetDefault ''server.refreshTokenExpireDuration'' (VString ''15d'') v;
          (apiKey, pool3) = generateKey pool2;
          v = SetDefault ''server.apiKey'' (VString apiKey) v;
          v = SetDefault ''server.recaptcha'' (VString ''GoogleRecaptchaSecret'') v;
          v = SetDefault ''database.name'' (VString ''passwall'') v;
          v = SetDefault ''database.username'' (VString ''postgres'') v;
          v = SetDefault ''database.password'' (VString ''password'') v;
          v = SetDefault ''database.host'' (VString ''localhost'') v;
          v = SetDefault ''database.port'' (VString ''5432'') v;
          v = SetDefault ''database.logmode'' (VBool False) v;
          v = SetDefault ''database.sslmode'' (VString ''disable'') v;
          v = SetDefault ''email.host'' (VString ''smtp.passwall.io'') v;
          v = SetDefault ''email.port'' (VString ''25'') v;
          v = SetDefault ''email.username'' (VString ''hello@passwall.io'') v;
          v = SetDefault ''email.password'' (VString ''password'') v;
          v = SetDefault ''email.fromName'' (VString ''Passwall'') v;
          v = SetDefault ''email.fromEmail'' (VString ''hello@passwall.io'') v;
          v = SetDefault ''email.apiKey'' (VString ''apiKey'') v
      in (v, pool3))"

text \<open>
  In \<open>readConfiguration\<close> the \<open>err\<close> returned by the \<open>else\<close> branch is the one \<open>os.Stat\<close>
  gave (it shadows the error of \<open>ReadInConfig\<close>), so that a configuration file that is
  there but cannot be read is passed over without an error.
\<close>

definition readConfiguration :: "strconv \<Rightarrow> string \<Rightarrow> world \<Rightarrow> error option \<times> world" where
  "readConfiguration sc configFilePath w =
     (case ReadInConfig sc (vp w) (files w) of
        (None, v) \<Rightarrow> (None, w\<lparr>vp := v\<rparr>)
      | (Some err, v) \<Rightarrow>
          (let w0 = w\<lparr>vp := v\<rparr>;
               err' = os_Stat w0 configFilePath
           in if os_IsNotExist err' then
                (let w1 = os_Create configFilePath w0 in
                 case WriteConfig sc w1 of
                   (Some err'', w2) \<Rightarrow> (Some err'', w2)
                 | (None, w2) \<Rightarrow> (None, w2))
              else (err', w0)))"

definition Init :: "strconv \<Rightarrow> string \<Rightarrow> string \<Rightarrow> world \<Rightarrow> (error + Configuration) \<times> world" where
  "Init sc configPath configName' w =
     (let configFilePath = filepath_Join configPath configName' @ configFileExt;
          v1 = initializeConfig configPath configName' (vp w);
          v2 = bindEnvs v1;
          (v3, pool) = setDefaults (v2, entropy w);
          w3 = w\<lparr>vp := v3, entropy := pool\<rparr>
      in case readConfiguration sc configFilePath w3 of
           (Some err, w4) \<Rightarrow> (Inl err, w4)
         | (None, w4) \<Rightarrow>
             (let w5 = w4\<lparr>vp := AutomaticEnv (vp w4)\<rparr> in
              case Unmarshal sc (vp w5) (environ w5) of
                Inl err \<Rightarrow> (Inl err, w5)
              | Inr configuration \<Rightarrow> (Inr configuration, w5)))"

text \<open>
  What the configuration file supplies to \<open>Init\<close> on a registry not yet configured: the
  settings of the file that \<open>ReadInConfig\<close> finds and reads; nothing when it finds none or
  cannot read the one it finds.
\<close>

definition configFileSettings :: "strconv \<Rightarrow> string \<Rightarrow> string \<Rightarrow> (string \<rightharpoonup> cfg_file)
    \<Rightarrow> (string \<rightharpoonup> cfg_value)" where
  "configFileSettings sc configPath configName' fs =
     config (snd (ReadInConfig sc (initializeConfig configPath configName' viper_New) fs))"

text \<open>
  A process started for the first time: nothing configured in the registry, no
  configuration file, no environment variable, a writable file system.
\<close>

definition freshWorld :: "rand_Reader \<Rightarrow> world" where
  "freshWorld pool = \<lparr>vp = viper_New, files = Map.empty, environ = Map.empty,
     readonly = False, entropy = pool\<rparr>"


text \<open>
  Conversions on which the package can be run: no text parses as a number or a truth
  value, and a string is quoted without escapes.
\<close>

definition sampleConv :: strconv where
  "sampleConv = \<lparr>ParseInt = (\<lambda>s. None), ParseBool = (\<lambda>s. None), FormatInt = (\<lambda>i. []),
     Quote = (\<lambda>s. [CHR 0x22] @ s @ [CHR 0x22])\<rparr>"

section \<open>Package api: the login handlers\<close>

subsection \<open>strconv.Atoi, net/http status codes\<close>

text \<open>
  \<open>Atoi\<close> reads an optional sign and decimal digits; anything else, and a value outside the
  64-bit \<open>int\<close>, is an error, whose text quotes the input.
\<close>

definition isDigit :: "char \<Rightarrow> bool" where
  "isDigit c = (48 \<le> (of_char c :: nat) \<and> (of_char c :: nat) \<le> 57)"

definition digitsToNat :: "string \<Rightarrow> nat" where
  "digitsToNat ds = foldl (\<lambda>n c. 10 * n + ((of_char c :: nat) - 48)) 0 ds"

definition NumError :: "strconv \<Rightarrow> string \<Rightarrow> string \<Rightarrow> string \<Rightarrow> error" where
  "NumError sc func num err = Error (''strconv.'' @ func @ '': parsing '' @ Quote sc num @ '': '' @ err)"

definition Atoi :: "strconv \<Rightarrow> string \<Rightarrow> error + int" where
  "Atoi sc s =
     (let (neg, ds) =
            (case s of
               [] \<Rightarrow> (False, [])
             | c # cs \<Rightarrow>
                 if c = CHR ''-'' then (True, cs)
                 else if c = CHR ''+'' then (False, cs)
                 else (False, s))
      in if ds = [] \<or> \<not> list_all isDigit ds then Inl (NumError sc ''Atoi'' s ''invalid syntax'')
         else (let n = (if neg then - int (digitsToNat ds) else int (digitsToNat ds))
               in if n < - (2 ^ 63) \<or> 2 ^ 63 - 1 < n
                  then Inl (NumError sc ''Atoi'' s ''value out of range'')
                  else Inr n))"

definition StatusOK :: int where "StatusOK = 200"
definition StatusBadRequest :: int where "StatusBadRequest = 400"
definition StatusNotFound :: int where "StatusNotFound = 404"
definition StatusInternalServerError :: int where "StatusInternalServerError = 500"

subsection \<open>Requests, records, responses\<close>

text \<open>
  The handlers see of a login and of its DTO only the \<open>ID\<close>; the other fields (the struct
  declarations are in package model) are the extension part of the records. A request
  carries its context values and its route variables, both as maps to strings, and its
  body. A context value that is missing (or not a string) makes the type assertion
  \<open>.(string)\<close> panic; a route variable that is missing reads as the empty string.
\<close>

type_synonym uint = "64 word"

record Login =
  ID :: uint

record LoginDTO =
  ID :: uint

record Request =
  ctx :: "string \<rightharpoonup> string"
  vars :: "string \<rightharpoonup> string"
  body :: string

definition mux_Vars :: "Request \<Rightarrow> string \<Rightarrow> string" where
  "mux_Vars r key = (case vars r key of None \<Rightarrow> [] | Some val \<Rightarrow> val)"

record Response =
  Code :: int
  Status :: string
  Message :: string

datatype ('login, 'dto) payload =
    PLoginList "'login list"
  | PLoginDTO 'dto
  | PResponse Response

text \<open>A call of one of the three response writers, with its arguments.\<close>

datatype ('login, 'dto) response =
    RespondWithError int string
  | RespondWithEncJSON int string "('login, 'dto) payload"
  | RespondWithJSON int "('login, 'dto) payload"

text \<open>
  What a handler does, in the order in which it does it: the call that opens the request
  body, the JSON decoding of the body, the calls into the store (directly, or through
  package app), the decryption of a stored record, and the responses written.
\<close>

datatype ('login, 'dto) event =
    EvToBody string string string
  | EvJSONDecode string
  | EvLoginsAll string
  | EvLoginsFindByID uint string
  | EvLoginsDelete uint string
  | EvAppCreateLogin 'dto string
  | EvAppUpdateLogin 'login 'dto string
  | EvDecryptModel 'login
  | EvRespond "('login, 'dto) response"

text \<open>A handler returns, or panics; either way it leaves a store behind.\<close>

datatype 'db ending = Returned 'db | Panicked 'db

text \<open>
  The collaborators of the handlers that are not among the sources, as parameters:
  \<open>ToBody\<close> (environment name, transmission key, request body; it yields the body the
  decoder then reads, or an error), the JSON decoder at the two types the handlers decode
  (a failed decoding of a list can leave the elements decoded so far), the login store,
  the create and update flows of package app, \<open>DecryptModel\<close>, \<open>ToLoginDTO\<close>, and the
  two message constants of the package.
\<close>

record ('l, 'd, 'db) api =
  conv :: strconv
  InvalidRequestPayload :: string
  Success :: string
  ToBody :: "string \<Rightarrow> string \<Rightarrow> string \<Rightarrow> error + string"
  DecodeLoginDTO :: "string \<Rightarrow> error + 'd LoginDTO_scheme"
  DecodeLoginList :: "string \<Rightarrow> error option \<times> 'd LoginDTO_scheme list"
  Logins_All :: "string \<Rightarrow> 'db \<Rightarrow> error + 'l Login_scheme list"
  Logins_FindByID :: "uint \<Rightarrow> string \<Rightarrow> 'db \<Rightarrow> error + 'l Login_scheme"
  Logins_Delete :: "uint \<Rightarrow> string \<Rightarrow> 'db \<Rightarrow> error option \<times> 'db"
  app_CreateLogin :: "'d LoginDTO_scheme \<Rightarrow> string \<Rightarrow> 'db \<Rightarrow> (error + 'l Login_scheme) \<times> 'db"
  app_UpdateLogin :: "'l Login_scheme \<Rightarrow> 'd LoginDTO_scheme \<Rightarrow> string \<Rightarrow> 'db
                        \<Rightarrow> (error + 'l Login_scheme) \<times> 'db"
  DecryptModel :: "'l Login_scheme \<Rightarrow> error + 'l Login_scheme"
  ToLoginDTO :: "'l Login_scheme \<Rightarrow> 'd LoginDTO_scheme"

type_synonym ('l, 'd, 'db) run =
  "('l Login_scheme, 'd LoginDTO_scheme) event list \<times> 'db ending"

definition emit :: "'ev \<Rightarrow> 'ev list \<times> 'e \<Rightarrow> 'ev list \<times> 'e" where
  "emit ev rest = (ev # fst rest, snd rest)"

definition loginDeleteSuccess :: string where
  "loginDeleteSuccess = ''Login deleted successfully!''"

subsection \<open>FindAllLogins\<close>

text \<open>
  The loop that decrypts the list in place: it stops at the first record that fails to
  decrypt, with that error.
\<close>

fun decryptLogins :: "('l, 'd, 'db) api \<Rightarrow> 'l Login_scheme list
    \<Rightarrow> ('l Login_scheme, 'd LoginDTO_scheme) event list \<times> (error + 'l Login_scheme list)" where
  "decryptLogins D [] = ([], Inr [])"
| "decryptLogins D (login # loginList) =
     (case DecryptModel D login of
        Inl err \<Rightarrow> ([EvDecryptModel login], Inl err)
      | Inr uLogin \<Rightarrow>
          (case decryptLogins D loginList of
             (evs, Inl err) \<Rightarrow> (EvDecryptModel login # evs, Inl err)
           | (evs, Inr uLogins) \<Rightarrow> (EvDecryptModel login # evs, Inr (uLogin # uLogins))))"

definition FindAllLogins :: "('l, 'd, 'db) api \<Rightarrow> Request \<Rightarrow> 'db \<Rightarrow> ('l, 'd, 'db) run" where
  "FindAllLogins D r db =
     (case ctx r ''transmissionKey'' of
        None \<Rightarrow> ([], Panicked db)
      | Some transmissionKey \<Rightarrow>
     (case ctx r ''schema'' of
        None \<Rightarrow> ([], Panicked db)
      | Some schema \<Rightarrow>
     emit (EvLoginsAll schema)
     (case Logins_All D schema db of
        Inl err \<Rightarrow> ([EvRespond (RespondWithError StatusNotFound (err_Error err))], Returned db)
      | Inr loginList \<Rightarrow>
     (case decryptLogins D loginList of
        (evs, Inl err) \<Rightarrow>
          (evs @ [EvRespond (RespondWithError StatusInternalServerError (err_Error err))], Returned db)
      | (evs, Inr loginList') \<Rightarrow>
          (evs @ [EvRespond (RespondWithEncJSON StatusOK transmissionKey (PLoginList loginList'))],
           Returned db)))))"

subsection \<open>FindLoginsByID\<close>

definition FindLoginsByID :: "('l, 'd, 'db) api \<Rightarrow> Request \<Rightarrow> 'db \<Rightarrow> ('l, 'd, 'db) run" where
  "FindLoginsByID D r db =
     (case ctx r ''transmissionKey'' of
        None \<Rightarrow> ([], Panicked db)
      | Some transmissionKey \<Rightarrow>
     (case Atoi (conv D) (mux_Vars r ''id'') of
        Inl err \<Rightarrow> ([EvRespond (RespondWithError StatusBadRequest (err_Error err))], Returned db)
      | Inr id' \<Rightarrow>
     (case ctx r ''schema'' of
        None \<Rightarrow> ([], Panicked db)
      | Some schema \<Rightarrow>
     emit (EvLoginsFindByID (of_int id') schema)
     (case Logins_FindByID D (of_int id') schema db of
        Inl err \<Rightarrow> ([EvRespond (RespondWithError StatusNotFound (err_Error err))], Returned db)
      | Inr login \<Rightarrow>
     emit (EvDecryptModel login)
     (case DecryptModel D login of
        Inl err \<Rightarrow>
          ([EvRespond (RespondWithError StatusInternalServerError (err_Error err))], Returned db)
      | Inr uLogin \<Rightarrow>
          ([EvRespond (RespondWithEncJSON StatusOK transmissionKey (PLoginDTO (ToLoginDTO D uLogin)))],
           Returned db))))))"

subsection \<open>CreateLogin\<close>

definition CreateLogin :: "('l, 'd, 'db) api \<Rightarrow> viper \<Rightarrow> (string \<rightharpoonup> string) \<Rightarrow> Request \<Rightarrow> 'db
    \<Rightarrow> ('l, 'd, 'db) run" where
  "CreateLogin D v e r db =
     (let env' = GetString (conv D) v e ''server.env'' in
      case ctx r ''transmissionKey'' of
        None \<Rightarrow> ([], Panicked db)
      | Some transmissionKey \<Rightarrow>
     emit (EvToBody env' transmissionKey (body r))
     (case ToBody D env' transmissionKey (body r) of
        Inl err \<Rightarrow>
          ([EvRespond (RespondWithError StatusBadRequest (InvalidRequestPayload D))], Returned db)
      | Inr body' \<Rightarrow>
     emit (EvJSONDecode body')
     (case DecodeLoginDTO D body' of
        Inl err \<Rightarrow>
          ([EvRespond (RespondWithError StatusBadRequest ''Invalid resquest payload'')], Returned db)
      | Inr loginDTO \<Rightarrow>
     (case ctx r ''schema'' of
        None \<Rightarrow> ([], Panicked db)
      | Some schema \<Rightarrow>
     emit (EvAppCreateLogin loginDTO schema)
     (case app_CreateLogin D loginDTO schema db of
        (Inl err, db') \<Rightarrow>
          ([EvRespond (RespondWithError StatusInternalServerError (err_Error err))], Returned db')
      | (Inr createdLogin, db') \<Rightarrow>
     emit (EvDecryptModel createdLogin)
     (case DecryptModel D createdLogin of
        Inl err \<Rightarrow>
          ([EvRespond (RespondWithError StatusInternalServerError (err_Error err))], Returned db')
      | Inr decLogin \<Rightarrow>
          ([EvRespond (RespondWithEncJSON StatusOK transmissionKey (PLoginDTO (ToLoginDTO D decLogin)))],
           Returned db')))))))"

subsection \<open>UpdateLogin\<close>

definition UpdateLogin :: "('l, 'd, 'db) api \<Rightarrow> viper \<Rightarrow> (string \<rightharpoonup> string) \<Rightarrow> Request \<Rightarrow> 'db
    \<Rightarrow> ('l, 'd, 'db) run" where
  "UpdateLogin D v e r db =
     (case Atoi (conv D) (mux_Vars r ''id'') of
        Inl err \<Rightarrow> ([EvRespond (RespondWithError StatusBadRequest (err_Error err))], Returned db)
      | Inr id' \<Rightarrow>
     (let env' = GetString (conv D) v e ''server.env'' in
      case ctx r ''transmissionKey'' of
        None \<Rightarrow> ([], Panicked db)
      | Some transmissionKey \<Rightarrow>
     emit (EvToBody env' transmissionKey (body r))
     (case ToBody D env' transmissionKey (body r) of
        Inl err \<Rightarrow>
          ([EvRespond (RespondWithError StatusBadRequest (InvalidRequestPayload D))], Returned db)
      | Inr body' \<Rightarrow>
     emit (EvJSONDecode body')
     (case DecodeLoginDTO D body' of
        Inl err \<Rightarrow>
          ([EvRespond (RespondWithError StatusBadRequest ''Invalid resquest payload'')], Returned db)
      | Inr loginDTO \<Rightarrow>
     (case ctx r ''schema'' of
        None \<Rightarrow> ([], Panicked db)
      | Some schema \<Rightarrow>
     emit (EvLoginsFindByID (of_int id') schema)
     (case Logins_FindByID D (of_int id') schema db of
        Inl err \<Rightarrow> ([EvRespond (RespondWithError StatusNotFound (err_Error err))], Returned db)
      | Inr login \<Rightarrow>
     emit (EvAppUpdateLogin login loginDTO schema)
     (case app_UpdateLogin D login loginDTO schema db of
        (Inl err, db') \<Rightarrow>
          ([EvRespond (RespondWithError StatusInternalServerError (err_Error err))], Returned db')
      | (Inr updatedLogin, db') \<Rightarrow>
     emit (EvDecryptModel updatedLogin)
     (case DecryptModel D updatedLogin of
        Inl err \<Rightarrow>
          ([EvRespond (RespondWithError StatusInternalServerError (err_Error err))], Returned db')
      | Inr decLogin \<Rightarrow>
          ([EvRespond (RespondWithEncJSON StatusOK transmissionKey (PLoginDTO (ToLoginDTO D decLogin)))],
           Returned db')))))))))"

subsection \<open>BulkUpdateLogins\<close>

text \<open>
  The loop over the decoded list. Each round reads the schema from the request context,
  finds the login and updates it; a failure writes an error response and returns from the
  handler. \<open>Inl\<close> is that return, \<open>Inr\<close> the store with which the loop completed.
\<close>

fun bulkUpdateLoop :: "('l, 'd, 'db) api \<Rightarrow> Request \<Rightarrow> 'd LoginDTO_scheme list \<Rightarrow> 'db
    \<Rightarrow> ('l Login_scheme, 'd LoginDTO_scheme) event list \<times> ('db ending + 'db)" where
  "bulkUpdateLoop D r [] db = ([], Inr db)"
| "bulkUpdateLoop D r (loginDTO # loginList) db =
     (case ctx r ''schema'' of
        None \<Rightarrow> ([], Inl (Panicked db))
      | Some schema \<Rightarrow>
     emit (EvLoginsFindByID (LoginDTO.ID loginDTO) schema)
     (case Logins_FindByID D (LoginDTO.ID loginDTO) schema db of
        Inl err \<Rightarrow>
          ([EvRespond (RespondWithError StatusNotFound (err_Error err))], Inl (Returned db))
      | Inr login \<Rightarrow>
     emit (EvAppUpdateLogin login loginDTO schema)
     (case app_UpdateLogin D login loginDTO schema db of
        (Inl err, db') \<Rightarrow>
          ([EvRespond (RespondWithError StatusInternalServerError (err_Error err))], Inl (Returned db'))
      | (Inr updatedLogin, db') \<Rightarrow> bulkUpdateLoop D r loginList db')))"

text \<open>
  After a failed decoding the handler writes the error response and goes on: there is no
  \<open>return\<close> in that branch.
\<close>

definition BulkUpdateLogins :: "('l, 'd, 'db) api \<Rightarrow> viper \<Rightarrow> (string \<rightharpoonup> string) \<Rightarrow> Request \<Rightarrow> 'db
    \<Rightarrow> ('l, 'd, 'db) run" where
  "BulkUpdateLogins D v e r db =
     (let env' = GetString (conv D) v e ''server.env'' in
      case ctx r ''transmissionKey'' of
        None \<Rightarrow> ([], Panicked db)
      | Some transmissionKey \<Rightarrow>
     emit (EvToBody env' transmissionKey (body r))
     (case ToBody D env' transmissionKey (body r) of
        Inl err \<Rightarrow>
          ([EvRespond (RespondWithError StatusBadRequest (InvalidRequestPayload D))], Returned db)
      | Inr body' \<Rightarrow>
     emit (EvJSONDecode body')
     (let (decodeErr, loginList) = DecodeLoginList D body';
          written = (case decodeErr of
                       None \<Rightarrow> []
                     | Some err \<Rightarrow>
                         [EvRespond (RespondWithError StatusInternalServerError (err_Error err))])
      in case bulkUpdateLoop D r loginList db of
           (evs, Inl ended) \<Rightarrow> (written @ evs, ended)
         | (evs, Inr db') \<Rightarrow>
             (written @ evs @
                [EvRespond (RespondWithJSON StatusOK
                   (PResponse \<lparr>Code = StatusOK, Status = ''Success'',
                               Message = ''Bulk update completed successfully!''\<rparr>))],
              Returned db'))))"

subsection \<open>DeleteLogin, TestLogin\<close>

definition DeleteLogin :: "('l, 'd, 'db) api \<Rightarrow> Request \<Rightarrow> 'db \<Rightarrow> ('l, 'd, 'db) run" where
  "DeleteLogin D r db =
     (case Atoi (conv D) (mux_Vars r ''id'') of
        Inl err \<Rightarrow> ([EvRespond (RespondWithError StatusBadRequest (err_Error err))], Returned db)
      | Inr id' \<Rightarrow>
     (case ctx r ''schema'' of
        None \<Rightarrow> ([], Panicked db)
      | Some schema \<Rightarrow>
     emit (EvLoginsFindByID (of_int id') schema)
     (case Logins_FindByID D (of_int id') schema db of
        Inl err \<Rightarrow> ([EvRespond (RespondWithError StatusNotFound (err_Error err))], Returned db)
      | Inr login \<Rightarrow>
     emit (EvLoginsDelete (Login.ID login) schema)
     (case Logins_Delete D (Login.ID login) schema db of
        (Some err, db') \<Rightarrow>
          ([EvRespond (RespondWithError StatusNotFound (err_Error err))], Returned db')
      | (None, db') \<Rightarrow>
          ([EvRespond (RespondWithJSON StatusOK
              (PResponse \<lparr>Code = StatusOK, Status = Success D, Message = loginDeleteSuccess\<rparr>))],
           Returned db')))))"

definition TestLogin :: "('l, 'd, 'db) api \<Rightarrow> Request \<Rightarrow> 'db \<Rightarrow> ('l, 'd, 'db) run" where
  "TestLogin D r db =
     ([EvRespond (RespondWithJSON StatusOK
         (PResponse \<lparr>Code = StatusOK, Status = Success D, Message = ''Test success!''\<rparr>))],
      Returned db)"

subsection \<open>Properties of a handler's run\<close>

text \<open>
  \<open>openedBeforeUse\<close>: nothing is decoded as JSON and the store is not touched before the
  request body has been handed to \<open>ToBody\<close>. \<open>emitsRecord\<close>: the event writes records to
  the client.
\<close>

fun isToBody :: "('login, 'dto) event \<Rightarrow> bool" where
  "isToBody (EvToBody env' key body') = True"
| "isToBody ev = False"

fun parsesOrPersists :: "('login, 'dto) event \<Rightarrow> bool" where
  "parsesOrPersists (EvJSONDecode body') = True"
| "parsesOrPersists (EvLoginsAll schema) = True"
| "parsesOrPersists (EvLoginsFindByID id' schema) = True"
| "parsesOrPersists (EvLoginsDelete id' schema) = True"
| "parsesOrPersists (EvAppCreateLogin dto schema) = True"
| "parsesOrPersists (EvAppUpdateLogin login dto schema) = True"
| "parsesOrPersists ev = False"

fun openedBeforeUse :: "('login, 'dto) event list \<Rightarrow> bool" where
  "openedBeforeUse [] = True"
| "openedBeforeUse (ev # evs) = (isToBody ev \<or> (\<not> parsesOrPersists ev \<and> openedBeforeUse evs))"

fun emitsRecord :: "('login, 'dto) event \<Rightarrow> bool" where
  "emitsRecord (EvRespond (RespondWithEncJSON code key p)) = True"
| "emitsRecord ev = False"

subsection \<open>Sample collaborators\<close>

text \<open>
  Concrete collaborators on which the handlers can be run. A login carries one more field,
  its stored password; the sample cipher knows one ciphertext, \<open>Y2lwaGVy\<close>, which decrypts
  to \<open>p@ss\<close>, and rejects every other. An envelope is the payload behind the prefix
  \<open>enc:\<close>.
\<close>

definition sampleRequest :: "string \<Rightarrow> string \<Rightarrow> Request" where
  "sampleRequest id' body' =
     \<lparr>ctx = [''transmissionKey'' \<mapsto> ''k3y'', ''schema'' \<mapsto> ''user1''],
      vars = [''id'' \<mapsto> id'], body = body'\<rparr>"

definition sampleStore :: "string Login_scheme list" where
  "sampleStore = [\<lparr>Login.ID = 1, \<dots> = ''Y2lwaGVy''\<rparr>, \<lparr>Login.ID = 2, \<dots> = ''tampered''\<rparr>]"

definition sampleApi :: "(string, string, string Login_scheme list) api" where
  "sampleApi =
     \<lparr>conv = sampleConv,
      InvalidRequestPayload = ''Invalid request payload'',
      Success = ''Success'',
      ToBody = (\<lambda>env' key body'.
                  if env' = ''dev'' then Inr body'
                  else if take 4 body' = ''enc:'' then Inr (drop 4 body')
                  else Inl (Error ''cannot open envelope'')),
      DecodeLoginDTO = (\<lambda>body'.
                  if body' = ''{}'' then Inr \<lparr>LoginDTO.ID = 0, \<dots> = ''p@ss''\<rparr>
                  else Inl (Error ''invalid character'')),
      DecodeLoginList = (\<lambda>body'.
                  if body' = ''[]'' then (None, [])
                  else if body' = ''[{},'' then
                    (Some (Error ''unexpected EOF''), [\<lparr>LoginDTO.ID = 1, \<dots> = ''n3w''\<rparr>])
                  else (Some (Error ''invalid character''), [])),
      Logins_All = (\<lambda>schema db. Inr db),
      Logins_FindByID = (\<lambda>id' schema db.
                  case List.find (\<lambda>l. Login.ID l = id') db of
                    None \<Rightarrow> Inl (Error ''record not found'')
                  | Some l \<Rightarrow> Inr l),
      Logins_Delete = (\<lambda>id' schema db. (None, filter (\<lambda>l. Login.ID l \<noteq> id') db)),
      app_CreateLogin = (\<lambda>dto schema db.
                  (Inr \<lparr>Login.ID = 3, \<dots> = ''Y2lwaGVy''\<rparr>,
                   db @ [\<lparr>Login.ID = 3, \<dots> = ''Y2lwaGVy''\<rparr>])),
      app_UpdateLogin = (\<lambda>login dto schema db.
                  (Inr (login\<lparr>Login.more := ''Y2lwaGVy''\<rparr>),
                   map (\<lambda>l. if Login.ID l = Login.ID login then login\<lparr>Login.more := ''Y2lwaGVy''\<rparr> else l) db)),
      DecryptModel = (\<lambda>l.
                  if Login.more l = ''Y2lwaGVy'' then Inr (l\<lparr>Login.more := ''p@ss''\<rparr>)
                  else Inl (Error ''cipher: message authentication failed'')),
      ToLoginDTO = (\<lambda>l. \<lparr>LoginDTO.ID = Login.ID l, \<dots> = Login.more l\<rparr>)\<rparr>"

section \<open>The payload envelope codec\<close>







section \<open>The record cipher and the model encryption engine\<close>

text \<open>
  Package app calls \<open>EncryptModel\<close>, whose code (with the cipher under it) is not among the
  sources. The definitions of this section are modelled from the specification.
\<close>

subsection \<open>encoding/base64: StdEncoding.DecodeString\<close>

definition decode6 :: "char \<Rightarrow> nat option" where
  "decode6 c = map_of (zip encodeStd [0..<64]) c"

text \<open>
  Four characters give three bytes; a last block may end in one or two padding characters
  and then gives two bytes or one. Anything else is malformed.
\<close>

fun DecodeString :: "string \<Rightarrow> byte list option" where
  "DecodeString [] = Some []"
| "DecodeString (a # b # c # d # s) =
     (case (decode6 a, decode6 b) of
        (Some va, Some vb) \<Rightarrow>
          if s = [] \<and> c = StdPadding \<and> d = StdPadding then
            Some [of_nat ((va * 262144 + vb * 4096) div 65536)]
          else
            (case decode6 c of
               None \<Rightarrow> None
             | Some vc \<Rightarrow>
                 if s = [] \<and> d = StdPadding then
                   (let val = va * 262144 + vb * 4096 + vc * 64
                    in Some [of_nat (val div 65536), of_nat (val div 256)])
                 else
                   (case decode6 d of
                      None \<Rightarrow> None
                    | Some vd \<Rightarrow>
                        (let val = va * 262144 + vb * 4096 + vc * 64 + vd
                         in case DecodeString s of
                              None \<Rightarrow> None
                            | Some dst \<Rightarrow>
                                Some (of_nat (val div 65536) # of_nat (val div 256) # of_nat val # dst))))
      | _ \<Rightarrow> None)"
| "DecodeString s = None"

subsection \<open>Record Cipher\<close>

text \<open>
  Modelled from the spec: the Record Cipher (section 4.2), whose code is not among the
  sources. The specification leaves the authenticated cipher open, so it is a parameter:
  its nonce and tag lengths, a sealing function (key, nonce, plaintext to tag and
  ciphertext) and an opening function that verifies the tag (\<open>None\<close> when the
  authentication fails). \<open>encryptField\<close> seals under the nonce drawn for the call,
  concatenates nonce, tag and ciphertext and encodes them as base64; \<open>decryptField\<close>
  decodes, splits, verifies and decrypts, failing with \<open>MalformedBlobError\<close> when the
  string cannot be split into the expected parts and with \<open>TamperedOrWrongKeyError\<close>
  when the authentication fails.
\<close>

record aead =
  NonceSize :: nat
  TagSize :: nat
  aead_Seal :: "byte list \<Rightarrow> byte list \<Rightarrow> byte list \<Rightarrow> byte list \<times> byte list"
  aead_Open :: "byte list \<Rightarrow> byte list \<Rightarrow> byte list \<Rightarrow> byte list \<Rightarrow> byte list option"

datatype cipher_error = MalformedBlobError | TamperedOrWrongKeyError

definition bytesOf :: "string \<Rightarrow> byte list" where
  "bytesOf s = map (\<lambda>c. of_nat (of_char c)) s"

definition stringOf :: "byte list \<Rightarrow> string" where
  "stringOf bs = map (\<lambda>b. char_of (unat b)) bs"

definition encryptField :: "aead \<Rightarrow> byte list \<Rightarrow> byte list \<Rightarrow> string \<Rightarrow> string" where
  "encryptField A key nonce plaintext =
     (let (tag, ciphertext) = aead_Seal A key nonce (bytesOf plaintext)
      in EncodeToString (nonce @ tag @ ciphertext))"

definition decryptField :: "aead \<Rightarrow> byte list \<Rightarrow> string \<Rightarrow> cipher_error + string" where
  "decryptField A key blob =
     (case DecodeString blob of
        None \<Rightarrow> Inl MalformedBlobError
      | Some raw \<Rightarrow>
          if length raw < NonceSize A + TagSize A then Inl MalformedBlobError
          else
            (let nonce = take (NonceSize A) raw;
                 tag = take (TagSize A) (drop (NonceSize A) raw);
                 ciphertext = drop (NonceSize A + TagSize A) raw
             in case aead_Open A key nonce tag ciphertext of
                  None \<Rightarrow> Inl TamperedOrWrongKeyError
                | Some plaintext \<Rightarrow> Inr (stringOf plaintext)))"

text \<open>
  What the cipher parameter owes at one nonce and plaintext: the nonce and the tag have
  the declared lengths, and opening what was sealed gives the plaintext back.
\<close>

definition aeadCorrectAt :: "aead \<Rightarrow> byte list \<Rightarrow> byte list \<Rightarrow> byte list \<Rightarrow> bool" where
  "aeadCorrectAt A key nonce plaintext =
     (length nonce = NonceSize A
      \<and> length (fst (aead_Seal A key nonce plaintext)) = TagSize A
      \<and> aead_Open A key nonce (fst (aead_Seal A key nonce plaintext))
           (snd (aead_Seal A key nonce plaintext)) = Some plaintext)"

subsection \<open>Model Encryption Engine\<close>

text \<open>
  Modelled from the spec: the Model Encryption Engine (section 4.3), whose code is not
  among the sources. A credential record is an ordered list of named string fields; the
  names of a variant's sensitive fields are fixed per variant. The engine holds the
  cipher, the at-rest key, the sensitive field names and, standing for the random source,
  the nonce that is drawn when each field is encrypted. \<open>encryptRecord\<close> replaces the
  value of every sensitive field by \<open>encryptField\<close> of it and passes the other fields
  through; \<open>decryptRecord\<close> is the inverse, and fails as a whole when any field fails.
\<close>

type_synonym CredentialRecord = "(string \<times> string) list"

record engine =
  cipher :: aead
  AtRestKey :: "byte list"
  SensitiveFields :: "string list"
  nonceFor :: "string \<Rightarrow> byte list"

definition encryptValue :: "engine \<Rightarrow> string \<Rightarrow> string \<Rightarrow> string" where
  "encryptValue E field val =
     (if field \<in> set (SensitiveFields E)
      then encryptField (cipher E) (AtRestKey E) (nonceFor E field) val
      else val)"

definition encryptRecord :: "engine \<Rightarrow> CredentialRecord \<Rightarrow> CredentialRecord" where
  "encryptRecord E record' = map (\<lambda>(field, val). (field, encryptValue E field val)) record'"

definition decryptValue :: "engine \<Rightarrow> string \<Rightarrow> string \<Rightarrow> cipher_error + string" where
  "decryptValue E field val =
     (if field \<in> set (SensitiveFields E)
      then decryptField (cipher E) (AtRestKey E) val
      else Inr val)"

fun decryptRecord :: "engine \<Rightarrow> CredentialRecord \<Rightarrow> cipher_error + CredentialRecord" where
  "decryptRecord E [] = Inr []"
| "decryptRecord E ((field, val) # record') =
     (case decryptValue E field val of
        Inl err \<Rightarrow> Inl err
      | Inr plaintext \<Rightarrow>
          (case decryptRecord E record' of
             Inl err \<Rightarrow> Inl err
           | Inr rest \<Rightarrow> Inr ((field, plaintext) # rest)))"

text \<open>
  The cipher parameter is correct wherever the engine uses it on a record: at the nonce of
  every sensitive field, on that field's value.
\<close>

definition engineCorrectOn :: "engine \<Rightarrow> CredentialRecord \<Rightarrow> bool" where
  "engineCorrectOn E r =
     list_all (\<lambda>(field, val). field \<in> set (SensitiveFields E) \<longrightarrow>
        aeadCorrectAt (cipher E) (AtRestKey E) (nonceFor E field) (bytesOf val)) r"

section \<open>Package app: the email flows\<close>

subsection \<open>Email records in memory\<close>

text \<open>
  Of the struct \<open>model.Email\<close> (declared in package model, not among the sources) the flows
  name three fields, all strings; whatever else the struct holds is the extension part of
  the record. \<open>UpdateEmail\<close> writes through the pointer it is given, so records live in a
  memory: a pointer is an index into it, a new record is appended, and a pointer that
  points at nothing (\<open>nil\<close>) makes a field access panic.
\<close>

record Email =
  Title :: string
  Email :: string
  Password :: string

type_synonym ptr = nat

definition load :: "'r list \<Rightarrow> ptr \<Rightarrow> 'r option" where
  "load mem p = (if p < length mem then Some (mem ! p) else None)"

definition new :: "'r \<Rightarrow> 'r list \<Rightarrow> ptr \<times> 'r list" where
  "new r mem = (length mem, mem @ [r])"

text \<open>The engine applied to an email: its named fields as a credential record, and back.\<close>

definition Email_fields :: "'a Email_scheme \<Rightarrow> CredentialRecord" where
  "Email_fields m = [(''Title'', Title m), (''Email'', Email.Email m), (''Password'', Email.Password m)]"

definition Email_with :: "'a Email_scheme \<Rightarrow> CredentialRecord \<Rightarrow> 'a Email_scheme" where
  "Email_with m fs =
     m\<lparr>Title := (case map_of fs ''Title'' of None \<Rightarrow> Title m | Some val \<Rightarrow> val),
       Email.Email := (case map_of fs ''Email'' of None \<Rightarrow> Email.Email m | Some val \<Rightarrow> val),
       Email.Password := (case map_of fs ''Password'' of None \<Rightarrow> Email.Password m | Some val \<Rightarrow> val)\<rparr>"

definition encryptEmail :: "engine \<Rightarrow> 'a Email_scheme \<Rightarrow> 'a Email_scheme" where
  "encryptEmail E m = Email_with m (encryptRecord E (Email_fields m))"

text \<open>
  Modelled from the spec: \<open>EncryptModel\<close>, which is not among the sources. Following
  section 4.3 it returns a new record and leaves the record it is given as it was.
\<close>

definition EncryptModel :: "engine \<Rightarrow> ptr \<Rightarrow> 'a Email_scheme list \<Rightarrow> (ptr \<times> 'a Email_scheme list) option" where
  "EncryptModel E rawModel mem =
     (case load mem rawModel of
        None \<Rightarrow> None
      | Some m \<Rightarrow> Some (new (encryptEmail E m) mem))"

subsection \<open>The collaborators of package app\<close>

text \<open>
  \<open>model.ToEmail\<close> (a parameter: the conversion of a DTO into a new email record) and the
  email store, whose \<open>Create\<close> and \<open>Update\<close> receive a pointer and the schema; they can
  read and write the memory and the store. Every call of the store is recorded with the
  memory as it was when the call was made.
\<close>

record ('a, 'dto, 'db) app =
  ToEmail :: "'dto \<Rightarrow> 'a Email_scheme"
  Emails_Create :: "ptr \<Rightarrow> string \<Rightarrow> 'a Email_scheme list \<times> 'db
                      \<Rightarrow> (error + ptr) \<times> 'a Email_scheme list \<times> 'db"
  Emails_Update :: "ptr \<Rightarrow> string \<Rightarrow> 'a Email_scheme list \<times> 'db
                      \<Rightarrow> (error + ptr) \<times> 'a Email_scheme list \<times> 'db"

datatype 'r store_call =
    Call_Create ptr "'r list" string
  | Call_Update ptr "'r list" string

datatype 'r outcome = Return 'r | Panic

subsection \<open>CreateEmail\<close>

definition CreateEmail :: "('a, 'dto, 'db) app \<Rightarrow> engine \<Rightarrow> 'dto \<Rightarrow> string
    \<Rightarrow> 'a Email_scheme list \<times> 'db
    \<Rightarrow> 'a Email_scheme store_call list \<times> ((error + ptr) \<times> 'a Email_scheme list \<times> 'db) outcome" where
  "CreateEmail s E dto schema st =
     (let (mem, db) = st;
          (rawModel, mem1) = new (ToEmail s dto) mem
      in case EncryptModel E rawModel mem1 of
           None \<Rightarrow> ([], Panic)
         | Some (encModel, mem2) \<Rightarrow>
             ([Call_Create encModel mem2 schema],
              (case Emails_Create s encModel schema (mem2, db) of
                 (Inl err, st') \<Rightarrow> Return (Inl err, st')
               | (Inr createdEmail, st') \<Rightarrow> Return (Inr createdEmail, st'))))"

subsection \<open>UpdateEmail\<close>

definition UpdateEmail :: "('a, 'dto, 'db) app \<Rightarrow> engine \<Rightarrow> ptr \<Rightarrow> 'dto \<Rightarrow> string
    \<Rightarrow> 'a Email_scheme list \<times> 'db
    \<Rightarrow> 'a Email_scheme store_call list \<times> ((error + ptr) \<times> 'a Email_scheme list \<times> 'db) outcome" where
  "UpdateEmail s E email dto schema st =
     (let (mem, db) = st;
          (rawModel, mem1) = new (ToEmail s dto) mem
      in case EncryptModel E rawModel mem1 of
           None \<Rightarrow> ([], Panic)
         | Some (encModel, mem2) \<Rightarrow>
             (case (load mem2 email, load mem2 encModel) of
                (Some old, Some enc) \<Rightarrow>
                  (let mem3 = mem2[email := old\<lparr>Title := Title enc,
                                               Email.Email := Email.Email enc,
                                               Email.Password := Email.Password enc\<rparr>]
                   in ([Call_Update email mem3 schema],
                       (case Emails_Update s email schema (mem3, db) of
                          (Inl err, st') \<Rightarrow> Return (Inl err, st')
                        | (Inr updatedEmail, st') \<Rightarrow> Return (Inr updatedEmail, st'))))
              | _ \<Rightarrow> ([], Panic)))"

subsection \<open>What the store is handed\<close>

text \<open>
  The record behind the pointer a store call received, and the memory as it was at that
  call.
\<close>

fun handed :: "'r store_call \<Rightarrow> 'r option" where
  "handed (Call_Create p mem schema) = load mem p"
| "handed (Call_Update p mem schema) = load mem p"

fun memoryAt :: "'r store_call \<Rightarrow> 'r list" where
  "memoryAt (Call_Create p mem schema) = mem"
| "memoryAt (Call_Update p mem schema) = mem"

subsection \<open>A sample cipher, engine and store\<close>

text \<open>
  A toy cipher on which the flows can be run: a two-byte nonce, a one-byte tag (the
  length of the plaintext plus the first key byte), and a ciphertext that adds the first
  nonce byte to every plaintext byte. The sample engine encrypts the password field; the
  sample store accepts every record and returns the pointer it was given.
\<close>

definition firstByte :: "byte list \<Rightarrow> byte" where
  "firstByte bs = (case bs of [] \<Rightarrow> 0 | b # _ \<Rightarrow> b)"

definition sampleAead :: aead where
  "sampleAead =
     \<lparr>NonceSize = 2, TagSize = 1,
      aead_Seal = (\<lambda>key nonce plaintext.
                     ([of_nat (length plaintext) + firstByte key],
                      map (\<lambda>b. b + firstByte nonce) plaintext)),
      aead_Open = (\<lambda>key nonce tag ciphertext.
                     if tag = [of_nat (length ciphertext) + firstByte key]
                     then Some (map (\<lambda>b. b - firstByte nonce) ciphertext) else None)\<rparr>"

definition sampleEngine :: engine where
  "sampleEngine =
     \<lparr>cipher = sampleAead, AtRestKey = [7], SensitiveFields = [''Password''],
      nonceFor = (\<lambda>field. [1, 2])\<rparr>"

text \<open>A DTO as the JSON decoder leaves it: a field the request omitted is the empty string.\<close>

record SampleDTO =
  dtoTitle :: string
  dtoEmail :: string
  dtoPassword :: string

definition sampleApp :: "(unit, SampleDTO, unit) app" where
  "sampleApp =
     \<lparr>ToEmail = (\<lambda>dto. \<lparr>Title = dtoTitle dto, Email = dtoEmail dto, Password = dtoPassword dto\<rparr>),
      Emails_Create = (\<lambda>p schema st. (Inr p, st)),
      Emails_Update = (\<lambda>p schema st. (Inr p, st))\<rparr>"

section \<open>Properties of package config\<close>

lemma length_EncodeToString: "length (EncodeToString src) = 4 * ((length src + 2) div 3)"
proof (induction src rule: EncodeToString.induct)
  case (1 a b c src)
  have "(length src + 5) div 3 = Suc ((length src + 2) div 3)" by presburger
  with 1 show ?case by (simp add: Let_def add.commute)
qed (simp_all add: Let_def)



lemma setDefaults_eq:
  "setDefaults (v, pool) =
     (v\<lparr>defaults := (defaults v)
        (''server.env'' \<mapsto> VString ''prod'',
         ''server.port'' \<mapsto> VString ''3625'',
         ''server.domain'' \<mapsto> VString ''https://vault.passwall.io'',
         ''server.passphrase'' \<mapsto> VString (fst (generateKey pool)),
         ''server.secret'' \<mapsto> VString (fst (generateKey (snd (generateKey pool)))),
         ''server.timeout'' \<mapsto> VInt 24,
         ''server.generatedpasswordlength'' \<mapsto> VInt 16,
         ''server.accesstokenexpireduration'' \<mapsto> VString ''30m'',
         ''server.refreshtokenexpireduration'' \<mapsto> VString ''15d'',
         ''server.apikey'' \<mapsto> VString (fst (generateKey (snd (generateKey (snd (generateKey pool)))))),
         ''server.recaptcha'' \<mapsto> VString ''GoogleRecaptchaSecret'',
         ''database.name'' \<mapsto> VString ''passwall'',
         ''database.username'' \<mapsto> VString ''postgres'',
         ''database.password'' \<mapsto> VString ''password'',
         ''database.host'' \<mapsto> VString ''localhost'',
         ''database.port'' \<mapsto> VString ''5432'',
         ''database.logmode'' \<mapsto> VBool False,
         ''database.sslmode'' \<mapsto> VString ''disable'',
         ''email.host'' \<mapsto> VString ''smtp.passwall.io'',
         ''email.port'' \<mapsto> VString ''25'',
         ''email.username'' \<mapsto> VString ''hello@passwall.io'',
         ''email.password'' \<mapsto> VString ''password'',
         ''email.fromname'' \<mapsto> VString ''Passwall'',
         ''email.fromemail'' \<mapsto> VString ''hello@passwall.io'',
         ''email.apikey'' \<mapsto> VString ''apiKey'')\<rparr>,
      snd (generateKey (snd (generateKey (snd (generateKey pool))))))"
  by (simp add: setDefaults_def SetDefault_def ToLower_def Let_def case_prod_beta)

lemma bindEnvs_eq:
  "bindEnvs v =
     v\<lparr>env := (env v)
        (''server.env'' \<mapsto> ''PW_ENV'',
         ''server.port'' \<mapsto> ''PORT'',
         ''server.domain'' \<mapsto> ''DOMAIN'',
         ''server.passphrase'' \<mapsto> ''PW_SERVER_PASSPHRASE'',
         ''server.secret'' \<mapsto> ''PW_SERVER_SECRET'',
         ''server.timeout'' \<mapsto> ''PW_SERVER_TIMEOUT'',
         ''server.generatedpasswordlength'' \<mapsto> ''PW_SERVER_GENERATED_PASSWORD_LENGTH'',
         ''server.accesstokenexpireduration'' \<mapsto> ''PW_SERVER_ACCESS_TOKEN_EXPIRE_DURATION'',
         ''server.refreshtokenexpireduration'' \<mapsto> ''PW_SERVER_REFRESH_TOKEN_EXPIRE_DURATION'',
         ''server.apikey'' \<mapsto> ''PW_SERVER_API_KEY'',
         ''server.recaptcha'' \<mapsto> ''PW_SERVER_RECAPTCHA'',
         ''database.name'' \<mapsto> ''PW_DB_NAME'',
         ''database.username'' \<mapsto> ''PW_DB_USERNAME'',
         ''database.password'' \<mapsto> ''PW_DB_PASSWORD'',
         ''database.host'' \<mapsto> ''PW_DB_HOST'',
         ''database.port'' \<mapsto> ''PW_DB_PORT'',
         ''database.logmode'' \<mapsto> ''PW_DB_LOG_MODE'',
         ''database.sslmode'' \<mapsto> ''PW_DB_SSL_MODE'',
         ''email.host'' \<mapsto> ''PW_EMAIL_HOST'',
         ''email.port'' \<mapsto> ''PW_EMAIL_PORT'',
         ''email.username'' \<mapsto> ''PW_EMAIL_USERNAME'',
         ''email.password'' \<mapsto> ''PW_EMAIL_PASSWORD'',
         ''email.fromemail'' \<mapsto> ''PW_EMAIL_FROM_EMAIL'',
         ''email.fromname'' \<mapsto> ''PW_EMAIL_FROM_NAME'',
         ''email.apikey'' \<mapsto> ''PW_EMAIL_API_KEY'')\<rparr>"
  by (simp add: bindEnvs_def BindEnv_def ToLower_def Let_def)










lemma readConfiguration_eq:
  "readConfiguration sc p w =
     (case ReadInConfig sc (vp w) (files w) of
        (None, v) \<Rightarrow> (None, w\<lparr>vp := v\<rparr>)
      | (Some err, v) \<Rightarrow>
          if os_IsNotExist (os_Stat (w\<lparr>vp := v\<rparr>) p)
          then WriteConfig sc (os_Create p (w\<lparr>vp := v\<rparr>))
          else (os_Stat (w\<lparr>vp := v\<rparr>) p, w\<lparr>vp := v\<rparr>))"
  by (simp add: readConfiguration_def Let_def split: prod.splits option.splits)
























text \<open>
  The search on sample directories: a file \<open>config.yaml\<close> is found and read as the
  configuration file; \<open>config.json\<close> is found before \<open>config.yml\<close>; and with the empty
  configuration path no file is ever found, so that \<open>Init\<close> fails.
\<close>

lemma configFileSettings_yaml:
  "configFileSettings sc ''/app/config'' ''config'' [''/app/config/config.yaml'' \<mapsto> Settings m] = m"
  by (simp add: configFileSettings_def ReadInConfig_def getConfigFile_def findConfigFile_def
      getConfigType_def searchInPath_def SupportedExts_def filepath_Join_def initializeConfig_def
      SetConfigType_def SetConfigName_def AddConfigPath_def viper_New_def configType_def)

lemma configFileSettings_json_before_yml:
  "configFileSettings sc ''/app/config'' ''config''
     [''/app/config/config.yml'' \<mapsto> Settings m, ''/app/config/config.json'' \<mapsto> Settings m'] = m'"
  by (simp add: configFileSettings_def ReadInConfig_def getConfigFile_def findConfigFile_def
      getConfigType_def searchInPath_def SupportedExts_def filepath_Join_def initializeConfig_def
      SetConfigType_def SetConfigName_def AddConfigPath_def viper_New_def configType_def)

lemma Init_empty_path:
  "fst (Init sc [] ''config'' (freshWorld pool)) = Inl (ConfigFileNotFoundError sc ''config'' [])"
proof -
  define v3 where "v3 = fst (setDefaults (bindEnvs (initializeConfig [] ''config'' viper_New), pool))"
  define pool' where "pool' = snd (setDefaults (bindEnvs (initializeConfig [] ''config'' viper_New), pool))"
  have sd: "setDefaults (bindEnvs (initializeConfig [] ''config'' viper_New), pool) = (v3, pool')"
    by (simp add: v3_def pool'_def)
  have v3: "configPaths v3 = []" "configName v3 = ''config''" "configFile v3 = []"
    by (simp_all add: v3_def setDefaults_eq bindEnvs_eq initializeConfig_def SetConfigType_def
        SetConfigName_def AddConfigPath_def viper_New_def configType_def)
  have rc: "fst (readConfiguration sc ''config.yml'' (freshWorld pool\<lparr>vp := v3, entropy := pool'\<rparr>)) =
      Some (ConfigFileNotFoundError sc ''config'' [])"
    by (simp add: readConfiguration_eq ReadInConfig_def getConfigFile_def findConfigFile_def v3
        os_Stat_def os_IsNotExist_def os_Create_def WriteConfig_def freshWorld_def)
  obtain r w4 where
    res: "readConfiguration sc ''config.yml'' (freshWorld pool\<lparr>vp := v3, entropy := pool'\<rparr>) = (r, w4)"
    by (cases "readConfiguration sc ''config.yml'' (freshWorld pool\<lparr>vp := v3, entropy := pool'\<rparr>)")
  have r: "r = Some (ConfigFileNotFoundError sc ''config'' [])"
    using rc by (simp add: res)
  have fresh: "vp (freshWorld pool) = viper_New" "entropy (freshWorld pool) = pool"
    by (simp_all add: freshWorld_def)
  show ?thesis
    by (simp add: Init_def Let_def filepath_Join_def configFileExt_def fresh sd res r)
qed




section \<open>Properties of the login handlers\<close>

lemma emit_pair [simp]: "emit ev (evs, e) = (ev # evs, e)"
  by (simp add: emit_def)

lemma fst_emit [simp]: "fst (emit ev rest) = ev # fst rest"
  by (simp add: emit_def)

lemma snd_emit [simp]: "snd (emit ev rest) = snd rest"
  by (simp add: emit_def)

lemma openedBeforeUse_CreateLogin: "openedBeforeUse (fst (CreateLogin D v e r db))"
  by (simp add: CreateLogin_def Let_def split: option.splits)

lemma openedBeforeUse_UpdateLogin: "openedBeforeUse (fst (UpdateLogin D v e r db))"
  by (simp add: UpdateLogin_def Let_def split: option.splits sum.splits)

lemma openedBeforeUse_BulkUpdateLogins: "openedBeforeUse (fst (BulkUpdateLogins D v e r db))"
  by (simp add: BulkUpdateLogins_def Let_def split: option.splits)

lemma Atoi_7: "Atoi sc ''7'' = Inr 7"
  by (simp add: Atoi_def Let_def isDigit_def digitsToNat_def)

lemma Atoi_1: "Atoi sc ''1'' = Inr 1"
  by (simp add: Atoi_def Let_def isDigit_def digitsToNat_def)

lemma Atoi_2: "Atoi sc ''2'' = Inr 2"
  by (simp add: Atoi_def Let_def isDigit_def digitsToNat_def)

lemma list_ex_False: "list_ex (\<lambda>x. False) xs = False"
  by (induction xs) simp_all

lemma GetString_viper_New: "GetString sc viper_New Map.empty key = []"
  by (simp add: GetString_def viper_find_def viper_New_def Let_def isPathShadowedInFlatMap_def
      isPathShadowedInDeepMap_def list_ex_False)

lemmas sample_simps = sampleApi_def sampleRequest_def sampleStore_def mux_Vars_def
  GetString_viper_New Let_def
  StatusOK_def StatusBadRequest_def StatusNotFound_def StatusInternalServerError_def

text \<open>
  C5. In every handler that accepts an encrypted payload (\<open>CreateLogin\<close>, \<open>UpdateLogin\<close>,
  \<open>BulkUpdateLogins\<close>) the request body is handed to \<open>ToBody\<close> for envelope decryption
  before it is decoded as JSON and before the store is touched; and when \<open>ToBody\<close> fails,
  the handler writes one request-level failure (status 400 with the fixed message
  \<open>InvalidRequestPayload\<close>) and returns: the body is never decoded, persistence is never
  called, the store is unchanged.
\<close>

theorem C5_decrypt_before_parse:
  "openedBeforeUse (fst (CreateLogin D v e r db))
   \<and> openedBeforeUse (fst (UpdateLogin D v e r db))
   \<and> openedBeforeUse (fst (BulkUpdateLogins D v e r db))
   \<and> (ctx r ''transmissionKey'' = Some tk
        \<and> ToBody D (GetString (conv D) v e ''server.env'') tk (body r) = Inl err
      \<longrightarrow> CreateLogin D v e r db =
            ([EvToBody (GetString (conv D) v e ''server.env'') tk (body r),
              EvRespond (RespondWithError StatusBadRequest (InvalidRequestPayload D))], Returned db)
        \<and> BulkUpdateLogins D v e r db =
            ([EvToBody (GetString (conv D) v e ''server.env'') tk (body r),
              EvRespond (RespondWithError StatusBadRequest (InvalidRequestPayload D))], Returned db)
        \<and> (Atoi (conv D) (mux_Vars r ''id'') = Inr n
            \<longrightarrow> UpdateLogin D v e r db =
            ([EvToBody (GetString (conv D) v e ''server.env'') tk (body r),
              EvRespond (RespondWithError StatusBadRequest (InvalidRequestPayload D))], Returned db)))"
proof -
  have "ctx r ''transmissionKey'' = Some tk
        \<and> ToBody D (GetString (conv D) v e ''server.env'') tk (body r) = Inl err
      \<longrightarrow> CreateLogin D v e r db =
            ([EvToBody (GetString (conv D) v e ''server.env'') tk (body r),
              EvRespond (RespondWithError StatusBadRequest (InvalidRequestPayload D))], Returned db)
        \<and> BulkUpdateLogins D v e r db =
            ([EvToBody (GetString (conv D) v e ''server.env'') tk (body r),
              EvRespond (RespondWithError StatusBadRequest (InvalidRequestPayload D))], Returned db)
        \<and> (Atoi (conv D) (mux_Vars r ''id'') = Inr n
            \<longrightarrow> UpdateLogin D v e r db =
            ([EvToBody (GetString (conv D) v e ''server.env'') tk (body r),
              EvRespond (RespondWithError StatusBadRequest (InvalidRequestPayload D))], Returned db))"
    by (simp add: CreateLogin_def UpdateLogin_def BulkUpdateLogins_def Let_def)
  then show ?thesis
    using openedBeforeUse_CreateLogin [of D v e r db] openedBeforeUse_UpdateLogin [of D v e r db]
      openedBeforeUse_BulkUpdateLogins [of D v e r db]
    by blast
qed

theorem C5_decrypt_before_parse_witness:
  "ctx (sampleRequest ''7'' ''{}'') ''transmissionKey'' = Some ''k3y''
   \<and> ToBody sampleApi (GetString (conv sampleApi) viper_New Map.empty ''server.env'')
        ''k3y'' (body (sampleRequest ''7'' ''{}'')) = Inl (Error ''cannot open envelope'')
   \<and> Atoi (conv sampleApi) (mux_Vars (sampleRequest ''7'' ''{}'') ''id'') = Inr 7
   \<and> CreateLogin sampleApi viper_New Map.empty (sampleRequest ''7'' ''{}'') sampleStore =
        ([EvToBody [] ''k3y'' ''{}'', EvRespond (RespondWithError 400 ''Invalid request payload'')],
         Returned sampleStore)
   \<and> UpdateLogin sampleApi viper_New Map.empty (sampleRequest ''7'' ''{}'') sampleStore =
        ([EvToBody [] ''k3y'' ''{}'', EvRespond (RespondWithError 400 ''Invalid request payload'')],
         Returned sampleStore)
   \<and> BulkUpdateLogins sampleApi viper_New Map.empty (sampleRequest ''7'' ''{}'') sampleStore =
        ([EvToBody [] ''k3y'' ''{}'', EvRespond (RespondWithError 400 ''Invalid request payload'')],
         Returned sampleStore)"
  using C5_decrypt_before_parse [of sampleApi viper_New Map.empty "sampleRequest ''7'' ''{}''" sampleStore
      "''k3y''" "Error ''cannot open envelope''" 7]
  by (simp add: sampleApi_def sampleRequest_def mux_Vars_def Atoi_7 GetString_viper_New
      StatusBadRequest_def Let_def)

lemma decryptLogins_Inr:
  "list_all2 (\<lambda>l u. DecryptModel D l = Inr u) ls us \<Longrightarrow>
   decryptLogins D ls = (map EvDecryptModel ls, Inr us)"
  by (induction ls us rule: list_all2_induct) simp_all

lemma decryptLogins_first_failure:
  assumes "k < length ls" "DecryptModel D (ls ! k) = Inl err"
    and "list_all2 (\<lambda>l u. DecryptModel D l = Inr u) (take k ls) us"
  shows "decryptLogins D ls = (map EvDecryptModel (take (Suc k) ls), Inl err)"
  using assms
proof (induction ls arbitrary: k us)
  case Nil
  then show ?case by simp
next
  case (Cons l ls)
  show ?case
  proof (cases k)
    case 0
    with Cons.prems show ?thesis by simp
  next
    case (Suc j)
    with Cons.prems obtain u us' where u: "DecryptModel D l = Inr u"
      and rest: "list_all2 (\<lambda>l u. DecryptModel D l = Inr u) (take j ls) us'"
      by (auto simp: list_all2_Cons1)
    from Cons.prems Suc have "j < length ls" "DecryptModel D (ls ! j) = Inl err"
      by simp_all
    from Cons.IH [OF this rest] show ?thesis
      by (simp add: Suc u)
  qed
qed

lemma FindAllLogins_decrypts:
  assumes "ctx r ''transmissionKey'' = Some tk" "ctx r ''schema'' = Some schema"
    and "Logins_All D schema db = Inr loginList"
  shows "list_all2 (\<lambda>l u. DecryptModel D l = Inr u) loginList us \<longrightarrow>
           FindAllLogins D r db =
             (EvLoginsAll schema # map EvDecryptModel loginList @
                [EvRespond (RespondWithEncJSON StatusOK tk (PLoginList us))], Returned db)"
    and "k < length loginList \<and> DecryptModel D (loginList ! k) = Inl err
           \<and> list_all2 (\<lambda>l u. DecryptModel D l = Inr u) (take k loginList) us' \<longrightarrow>
           FindAllLogins D r db =
             (EvLoginsAll schema # map EvDecryptModel (take (Suc k) loginList) @
                [EvRespond (RespondWithError StatusInternalServerError (err_Error err))], Returned db)"
proof -
  show "list_all2 (\<lambda>l u. DecryptModel D l = Inr u) loginList us \<longrightarrow>
           FindAllLogins D r db =
             (EvLoginsAll schema # map EvDecryptModel loginList @
                [EvRespond (RespondWithEncJSON StatusOK tk (PLoginList us))], Returned db)"
    using assms by (simp add: FindAllLogins_def decryptLogins_Inr)
  show "k < length loginList \<and> DecryptModel D (loginList ! k) = Inl err
           \<and> list_all2 (\<lambda>l u. DecryptModel D l = Inr u) (take k loginList) us' \<longrightarrow>
           FindAllLogins D r db =
             (EvLoginsAll schema # map EvDecryptModel (take (Suc k) loginList) @
                [EvRespond (RespondWithError StatusInternalServerError (err_Error err))], Returned db)"
  proof (intro impI, elim conjE)
    assume "k < length loginList" "DecryptModel D (loginList ! k) = Inl err"
      "list_all2 (\<lambda>l u. DecryptModel D l = Inr u) (take k loginList) us'"
    then have "decryptLogins D loginList = (map EvDecryptModel (take (Suc k) loginList), Inl err)"
      by (rule decryptLogins_first_failure)
    with assms show "FindAllLogins D r db =
             (EvLoginsAll schema # map EvDecryptModel (take (Suc k) loginList) @
                [EvRespond (RespondWithError StatusInternalServerError (err_Error err))], Returned db)"
      by (simp add: FindAllLogins_def)
  qed
qed

text \<open>
  C6. Every handler that returns a stored record to the client (\<open>FindAllLogins\<close>,
  \<open>FindLoginsByID\<close>, \<open>CreateLogin\<close>, \<open>UpdateLogin\<close>) calls \<open>DecryptModel\<close> on the record
  before the response is written, and what it writes is the decrypted record (converted
  to a DTO by the three handlers that return one record); if the decryption fails, the
  handler writes an error response and no record. \<open>FindAllLogins\<close> decrypts the records
  in order and stops at the first one that fails.
\<close>

theorem C6_decrypt_before_response:
  "(ctx r ''transmissionKey'' = Some tk \<and> ctx r ''schema'' = Some schema
      \<and> Logins_All D schema db = Inr loginList
    \<longrightarrow> (list_all2 (\<lambda>l u. DecryptModel D l = Inr u) loginList us \<longrightarrow>
           FindAllLogins D r db =
             (EvLoginsAll schema # map EvDecryptModel loginList @
                [EvRespond (RespondWithEncJSON StatusOK tk (PLoginList us))], Returned db))
        \<and> (k < length loginList \<and> DecryptModel D (loginList ! k) = Inl err
             \<and> list_all2 (\<lambda>l u. DecryptModel D l = Inr u) (take k loginList) us' \<longrightarrow>
           FindAllLogins D r db =
             (EvLoginsAll schema # map EvDecryptModel (take (Suc k) loginList) @
                [EvRespond (RespondWithError StatusInternalServerError (err_Error err))], Returned db)))
   \<and> (ctx r ''transmissionKey'' = Some tk \<and> Atoi (conv D) (mux_Vars r ''id'') = Inr n
      \<and> ctx r ''schema'' = Some schema \<and> Logins_FindByID D (of_int n) schema db = Inr login
    \<longrightarrow> FindLoginsByID D r db =
          ([EvLoginsFindByID (of_int n) schema, EvDecryptModel login,
            EvRespond (case DecryptModel D login of
               Inl err \<Rightarrow> RespondWithError StatusInternalServerError (err_Error err)
             | Inr uLogin \<Rightarrow> RespondWithEncJSON StatusOK tk (PLoginDTO (ToLoginDTO D uLogin)))],
           Returned db))
   \<and> (ctx r ''transmissionKey'' = Some tk
      \<and> ToBody D (GetString (conv D) v e ''server.env'') tk (body r) = Inr body'
      \<and> DecodeLoginDTO D body' = Inr loginDTO \<and> ctx r ''schema'' = Some schema
    \<longrightarrow> (app_CreateLogin D loginDTO schema db = (Inr createdLogin, db')
          \<longrightarrow> CreateLogin D v e r db =
          ([EvToBody (GetString (conv D) v e ''server.env'') tk (body r), EvJSONDecode body',
            EvAppCreateLogin loginDTO schema, EvDecryptModel createdLogin,
            EvRespond (case DecryptModel D createdLogin of
               Inl err \<Rightarrow> RespondWithError StatusInternalServerError (err_Error err)
             | Inr decLogin \<Rightarrow> RespondWithEncJSON StatusOK tk (PLoginDTO (ToLoginDTO D decLogin)))],
           Returned db'))
       \<and> (Atoi (conv D) (mux_Vars r ''id'') = Inr n \<and> Logins_FindByID D (of_int n) schema db = Inr login
           \<and> app_UpdateLogin D login loginDTO schema db = (Inr updatedLogin, db')
          \<longrightarrow> UpdateLogin D v e r db =
          ([EvToBody (GetString (conv D) v e ''server.env'') tk (body r), EvJSONDecode body',
            EvLoginsFindByID (of_int n) schema, EvAppUpdateLogin login loginDTO schema,
            EvDecryptModel updatedLogin,
            EvRespond (case DecryptModel D updatedLogin of
               Inl err \<Rightarrow> RespondWithError StatusInternalServerError (err_Error err)
             | Inr decLogin \<Rightarrow> RespondWithEncJSON StatusOK tk (PLoginDTO (ToLoginDTO D decLogin)))],
           Returned db')))"
proof -
  have one: "ctx r ''transmissionKey'' = Some tk \<and> Atoi (conv D) (mux_Vars r ''id'') = Inr n
      \<and> ctx r ''schema'' = Some schema \<and> Logins_FindByID D (of_int n) schema db = Inr login
    \<longrightarrow> FindLoginsByID D r db =
          ([EvLoginsFindByID (of_int n) schema, EvDecryptModel login,
            EvRespond (case DecryptModel D login of
               Inl err \<Rightarrow> RespondWithError StatusInternalServerError (err_Error err)
             | Inr uLogin \<Rightarrow> RespondWithEncJSON StatusOK tk (PLoginDTO (ToLoginDTO D uLogin)))],
           Returned db)"
    by (simp add: FindLoginsByID_def split: sum.splits)
  have create: "ctx r ''transmissionKey'' = Some tk
      \<and> ToBody D (GetString (conv D) v e ''server.env'') tk (body r) = Inr body'
      \<and> DecodeLoginDTO D body' = Inr loginDTO \<and> ctx r ''schema'' = Some schema
      \<and> app_CreateLogin D loginDTO schema db = (Inr createdLogin, db')
          \<longrightarrow> CreateLogin D v e r db =
          ([EvToBody (GetString (conv D) v e ''server.env'') tk (body r), EvJSONDecode body',
            EvAppCreateLogin loginDTO schema, EvDecryptModel createdLogin,
            EvRespond (case DecryptModel D createdLogin of
               Inl err \<Rightarrow> RespondWithError StatusInternalServerError (err_Error err)
             | Inr decLogin \<Rightarrow> RespondWithEncJSON StatusOK tk (PLoginDTO (ToLoginDTO D decLogin)))],
           Returned db')"
    by (simp add: CreateLogin_def Let_def split: sum.splits)
  have update: "ctx r ''transmissionKey'' = Some tk
      \<and> ToBody D (GetString (conv D) v e ''server.env'') tk (body r) = Inr body'
      \<and> DecodeLoginDTO D body' = Inr loginDTO \<and> ctx r ''schema'' = Some schema
      \<and> Atoi (conv D) (mux_Vars r ''id'') = Inr n \<and> Logins_FindByID D (of_int n) schema db = Inr login
           \<and> app_UpdateLogin D login loginDTO schema db = (Inr updatedLogin, db')
          \<longrightarrow> UpdateLogin D v e r db =
          ([EvToBody (GetString (conv D) v e ''server.env'') tk (body r), EvJSONDecode body',
            EvLoginsFindByID (of_int n) schema, EvAppUpdateLogin login loginDTO schema,
            EvDecryptModel updatedLogin,
            EvRespond (case DecryptModel D updatedLogin of
               Inl err \<Rightarrow> RespondWithError StatusInternalServerError (err_Error err)
             | Inr decLogin \<Rightarrow> RespondWithEncJSON StatusOK tk (PLoginDTO (ToLoginDTO D decLogin)))],
           Returned db')"
    by (simp add: UpdateLogin_def Let_def split: sum.splits)
  show ?thesis
    using FindAllLogins_decrypts(1) [of r tk schema D db loginList us]
      FindAllLogins_decrypts(2) [of r tk schema D db loginList k err us'] one create update
    by blast
qed

theorem C6_decrypt_before_response_witness:
  "FindAllLogins sampleApi (sampleRequest ''1'' []) [\<lparr>Login.ID = 1, \<dots> = ''Y2lwaGVy''\<rparr>] =
     ([EvLoginsAll ''user1'', EvDecryptModel \<lparr>Login.ID = 1, \<dots> = ''Y2lwaGVy''\<rparr>,
       EvRespond (RespondWithEncJSON 200 ''k3y'' (PLoginList [\<lparr>Login.ID = 1, \<dots> = ''p@ss''\<rparr>]))],
      Returned [\<lparr>Login.ID = 1, \<dots> = ''Y2lwaGVy''\<rparr>])
   \<and> FindAllLogins sampleApi (sampleRequest ''1'' []) sampleStore =
     ([EvLoginsAll ''user1'', EvDecryptModel \<lparr>Login.ID = 1, \<dots> = ''Y2lwaGVy''\<rparr>,
       EvDecryptModel \<lparr>Login.ID = 2, \<dots> = ''tampered''\<rparr>,
       EvRespond (RespondWithError 500 ''cipher: message authentication failed'')],
      Returned sampleStore)
   \<and> FindLoginsByID sampleApi (sampleRequest ''1'' []) sampleStore =
     ([EvLoginsFindByID 1 ''user1'', EvDecryptModel \<lparr>Login.ID = 1, \<dots> = ''Y2lwaGVy''\<rparr>,
       EvRespond (RespondWithEncJSON 200 ''k3y'' (PLoginDTO \<lparr>LoginDTO.ID = 1, \<dots> = ''p@ss''\<rparr>))],
      Returned sampleStore)
   \<and> FindLoginsByID sampleApi (sampleRequest ''2'' []) sampleStore =
     ([EvLoginsFindByID 2 ''user1'', EvDecryptModel \<lparr>Login.ID = 2, \<dots> = ''tampered''\<rparr>,
       EvRespond (RespondWithError 500 ''cipher: message authentication failed'')],
      Returned sampleStore)
   \<and> CreateLogin sampleApi viper_New Map.empty (sampleRequest ''1'' ''enc:{}'') sampleStore =
     ([EvToBody [] ''k3y'' ''enc:{}'', EvJSONDecode ''{}'',
       EvAppCreateLogin \<lparr>LoginDTO.ID = 0, \<dots> = ''p@ss''\<rparr> ''user1'',
       EvDecryptModel \<lparr>Login.ID = 3, \<dots> = ''Y2lwaGVy''\<rparr>,
       EvRespond (RespondWithEncJSON 200 ''k3y'' (PLoginDTO \<lparr>LoginDTO.ID = 3, \<dots> = ''p@ss''\<rparr>))],
      Returned (sampleStore @ [\<lparr>Login.ID = 3, \<dots> = ''Y2lwaGVy''\<rparr>]))
   \<and> UpdateLogin sampleApi viper_New Map.empty (sampleRequest ''2'' ''enc:{}'') sampleStore =
     ([EvToBody [] ''k3y'' ''enc:{}'', EvJSONDecode ''{}'',
       EvLoginsFindByID 2 ''user1'',
       EvAppUpdateLogin \<lparr>Login.ID = 2, \<dots> = ''tampered''\<rparr> \<lparr>LoginDTO.ID = 0, \<dots> = ''p@ss''\<rparr> ''user1'',
       EvDecryptModel \<lparr>Login.ID = 2, \<dots> = ''Y2lwaGVy''\<rparr>,
       EvRespond (RespondWithEncJSON 200 ''k3y'' (PLoginDTO \<lparr>LoginDTO.ID = 2, \<dots> = ''p@ss''\<rparr>))],
      Returned [\<lparr>Login.ID = 1, \<dots> = ''Y2lwaGVy''\<rparr>, \<lparr>Login.ID = 2, \<dots> = ''Y2lwaGVy''\<rparr>])"
proof -
  let ?l1 = "\<lparr>Login.ID = 1, \<dots> = ''Y2lwaGVy''\<rparr>"
  let ?l2 = "\<lparr>Login.ID = 2, \<dots> = ''tampered''\<rparr>"
  let ?u1 = "\<lparr>Login.ID = 1, \<dots> = ''p@ss''\<rparr>"
  let ?dto = "\<lparr>LoginDTO.ID = 0, \<dots> = ''p@ss''\<rparr>"
  let ?err = "Error ''cipher: message authentication failed''"
  note a = C6_decrypt_before_response [where r = "sampleRequest ''1'' []" and tk = "''k3y''"
      and schema = "''user1''" and D = sampleApi and db = "[?l1]" and loginList = "[?l1]"
      and us = "[?u1]" and k = 0 and err = ?err and us' = "[]" and n = 1 and login = ?l1
      and v = viper_New and e = Map.empty and body' = "[]" and loginDTO = ?dto
      and createdLogin = ?l1 and db' = "[]" and updatedLogin = ?l1]
  note b = C6_decrypt_before_response [where r = "sampleRequest ''1'' []" and tk = "''k3y''"
      and schema = "''user1''" and D = sampleApi and db = sampleStore and loginList = sampleStore
      and us = "[]" and k = 1 and err = ?err and us' = "[?u1]" and n = 1 and login = ?l1
      and v = viper_New and e = Map.empty and body' = "[]" and loginDTO = ?dto
      and createdLogin = ?l1 and db' = "[]" and updatedLogin = ?l1]
  note c = C6_decrypt_before_response [where r = "sampleRequest ''2'' []" and tk = "''k3y''"
      and schema = "''user1''" and D = sampleApi and db = sampleStore and loginList = sampleStore
      and us = "[]" and k = 1 and err = ?err and us' = "[?u1]" and n = 2 and login = ?l2
      and v = viper_New and e = Map.empty and body' = "[]" and loginDTO = ?dto
      and createdLogin = ?l1 and db' = "[]" and updatedLogin = ?l1]
  note d = C6_decrypt_before_response [where r = "sampleRequest ''1'' ''enc:{}''" and tk = "''k3y''"
      and schema = "''user1''" and D = sampleApi and db = sampleStore and loginList = sampleStore
      and us = "[]" and k = 1 and err = ?err and us' = "[?u1]" and n = 1 and login = ?l1
      and v = viper_New and e = Map.empty and body' = "''{}''" and loginDTO = ?dto
      and createdLogin = "\<lparr>Login.ID = 3, \<dots> = ''Y2lwaGVy''\<rparr>"
      and db' = "sampleStore @ [\<lparr>Login.ID = 3, \<dots> = ''Y2lwaGVy''\<rparr>]" and updatedLogin = ?l1]
  note e = C6_decrypt_before_response [where r = "sampleRequest ''2'' ''enc:{}''" and tk = "''k3y''"
      and schema = "''user1''" and D = sampleApi and db = sampleStore and loginList = sampleStore
      and us = "[]" and k = 1 and err = ?err and us' = "[?u1]" and n = 2 and login = ?l2
      and v = viper_New and e = Map.empty and body' = "''{}''" and loginDTO = ?dto
      and createdLogin = ?l1
      and db' = "[\<lparr>Login.ID = 1, \<dots> = ''Y2lwaGVy''\<rparr>, \<lparr>Login.ID = 2, \<dots> = ''Y2lwaGVy''\<rparr>]"
      and updatedLogin = "\<lparr>Login.ID = 2, \<dots> = ''Y2lwaGVy''\<rparr>"]
  have 1: "FindAllLogins sampleApi (sampleRequest ''1'' []) [?l1] =
     ([EvLoginsAll ''user1'', EvDecryptModel ?l1,
       EvRespond (RespondWithEncJSON 200 ''k3y'' (PLoginList [?u1]))],
      Returned [?l1])"
    using a by (simp add: sample_simps)
  have 2: "FindAllLogins sampleApi (sampleRequest ''1'' []) sampleStore =
     ([EvLoginsAll ''user1'', EvDecryptModel ?l1, EvDecryptModel ?l2,
       EvRespond (RespondWithError 500 ''cipher: message authentication failed'')],
      Returned sampleStore)"
    using b by (simp add: sample_simps)
  have 3: "FindLoginsByID sampleApi (sampleRequest ''1'' []) sampleStore =
     ([EvLoginsFindByID 1 ''user1'', EvDecryptModel ?l1,
       EvRespond (RespondWithEncJSON 200 ''k3y'' (PLoginDTO \<lparr>LoginDTO.ID = 1, \<dots> = ''p@ss''\<rparr>))],
      Returned sampleStore)"
    using b by (simp add: sample_simps Atoi_1)
  have 4: "FindLoginsByID sampleApi (sampleRequest ''2'' []) sampleStore =
     ([EvLoginsFindByID 2 ''user1'', EvDecryptModel ?l2,
       EvRespond (RespondWithError 500 ''cipher: message authentication failed'')],
      Returned sampleStore)"
    using c by (simp add: sample_simps Atoi_2)
  have 5: "CreateLogin sampleApi viper_New Map.empty (sampleRequest ''1'' ''enc:{}'') sampleStore =
     ([EvToBody [] ''k3y'' ''enc:{}'', EvJSONDecode ''{}'',
       EvAppCreateLogin ?dto ''user1'',
       EvDecryptModel \<lparr>Login.ID = 3, \<dots> = ''Y2lwaGVy''\<rparr>,
       EvRespond (RespondWithEncJSON 200 ''k3y'' (PLoginDTO \<lparr>LoginDTO.ID = 3, \<dots> = ''p@ss''\<rparr>))],
      Returned (sampleStore @ [\<lparr>Login.ID = 3, \<dots> = ''Y2lwaGVy''\<rparr>]))"
    using d by (simp add: sample_simps Atoi_1)
  have 6: "UpdateLogin sampleApi viper_New Map.empty (sampleRequest ''2'' ''enc:{}'') sampleStore =
     ([EvToBody [] ''k3y'' ''enc:{}'', EvJSONDecode ''{}'',
       EvLoginsFindByID 2 ''user1'',
       EvAppUpdateLogin ?l2 ?dto ''user1'',
       EvDecryptModel \<lparr>Login.ID = 2, \<dots> = ''Y2lwaGVy''\<rparr>,
       EvRespond (RespondWithEncJSON 200 ''k3y'' (PLoginDTO \<lparr>LoginDTO.ID = 2, \<dots> = ''p@ss''\<rparr>))],
      Returned [\<lparr>Login.ID = 1, \<dots> = ''Y2lwaGVy''\<rparr>, \<lparr>Login.ID = 2, \<dots> = ''Y2lwaGVy''\<rparr>])"
    using e by (simp add: sample_simps Atoi_2)
  from 1 2 3 4 5 6 show ?thesis by blast
qed

text \<open>
  C7, as the specification states it, fails: a stored record that does not decrypt is
  answered with status 500, a server error, and with the text of the decryption error
  itself.
\<close>

theorem C7_decrypt_failure_detail_counterexample:
  "DecryptModel sampleApi \<lparr>Login.ID = 2, \<dots> = ''tampered''\<rparr> =
     Inl (Error ''cipher: message authentication failed'')
   \<and> FindLoginsByID sampleApi (sampleRequest ''2'' []) sampleStore =
     ([EvLoginsFindByID 2 ''user1'', EvDecryptModel \<lparr>Login.ID = 2, \<dots> = ''tampered''\<rparr>,
       EvRespond (RespondWithError 500 ''cipher: message authentication failed'')],
      Returned sampleStore)"
  by (simp add: FindLoginsByID_def sample_simps Atoi_2)

text \<open>
  C7, amended. When the decryption of a stored record fails in a request handler, the
  handler ends by calling \<open>RespondWithError\<close> with status 500 (internal server error) and
  the text of the underlying error, and writes nothing else.
\<close>

theorem C7_decrypt_failure_status_and_text:
  "(ctx r ''transmissionKey'' = Some tk \<and> ctx r ''schema'' = Some schema
      \<and> Logins_All D schema db = Inr loginList
      \<and> k < length loginList \<and> DecryptModel D (loginList ! k) = Inl err
      \<and> list_all2 (\<lambda>l u. DecryptModel D l = Inr u) (take k loginList) us
    \<longrightarrow> FindAllLogins D r db =
             (EvLoginsAll schema # map EvDecryptModel (take (Suc k) loginList) @
                [EvRespond (RespondWithError StatusInternalServerError (err_Error err))], Returned db))
   \<and> (ctx r ''transmissionKey'' = Some tk \<and> Atoi (conv D) (mux_Vars r ''id'') = Inr n
      \<and> ctx r ''schema'' = Some schema \<and> Logins_FindByID D (of_int n) schema db = Inr login
      \<and> DecryptModel D login = Inl err
    \<longrightarrow> FindLoginsByID D r db =
          ([EvLoginsFindByID (of_int n) schema, EvDecryptModel login,
            EvRespond (RespondWithError StatusInternalServerError (err_Error err))], Returned db))
   \<and> (ctx r ''transmissionKey'' = Some tk
      \<and> ToBody D (GetString (conv D) v e ''server.env'') tk (body r) = Inr body'
      \<and> DecodeLoginDTO D body' = Inr loginDTO \<and> ctx r ''schema'' = Some schema
    \<longrightarrow> (app_CreateLogin D loginDTO schema db = (Inr createdLogin, db')
          \<and> DecryptModel D createdLogin = Inl err
          \<longrightarrow> CreateLogin D v e r db =
          ([EvToBody (GetString (conv D) v e ''server.env'') tk (body r), EvJSONDecode body',
            EvAppCreateLogin loginDTO schema, EvDecryptModel createdLogin,
            EvRespond (RespondWithError StatusInternalServerError (err_Error err))], Returned db'))
       \<and> (Atoi (conv D) (mux_Vars r ''id'') = Inr n \<and> Logins_FindByID D (of_int n) schema db = Inr login
           \<and> app_UpdateLogin D login loginDTO schema db = (Inr updatedLogin, db')
           \<and> DecryptModel D updatedLogin = Inl err
          \<longrightarrow> UpdateLogin D v e r db =
          ([EvToBody (GetString (conv D) v e ''server.env'') tk (body r), EvJSONDecode body',
            EvLoginsFindByID (of_int n) schema, EvAppUpdateLogin login loginDTO schema,
            EvDecryptModel updatedLogin,
            EvRespond (RespondWithError StatusInternalServerError (err_Error err))], Returned db')))"
proof -
  have one: "ctx r ''transmissionKey'' = Some tk \<and> Atoi (conv D) (mux_Vars r ''id'') = Inr n
      \<and> ctx r ''schema'' = Some schema \<and> Logins_FindByID D (of_int n) schema db = Inr login
      \<and> DecryptModel D login = Inl err
    \<longrightarrow> FindLoginsByID D r db =
          ([EvLoginsFindByID (of_int n) schema, EvDecryptModel login,
            EvRespond (RespondWithError StatusInternalServerError (err_Error err))], Returned db)"
    by (simp add: FindLoginsByID_def)
  have create: "ctx r ''transmissionKey'' = Some tk
      \<and> ToBody D (GetString (conv D) v e ''server.env'') tk (body r) = Inr body'
      \<and> DecodeLoginDTO D body' = Inr loginDTO \<and> ctx r ''schema'' = Some schema
      \<and> app_CreateLogin D loginDTO schema db = (Inr createdLogin, db')
      \<and> DecryptModel D createdLogin = Inl err
          \<longrightarrow> CreateLogin D v e r db =
          ([EvToBody (GetString (conv D) v e ''server.env'') tk (body r), EvJSONDecode body',
            EvAppCreateLogin loginDTO schema, EvDecryptModel createdLogin,
            EvRespond (RespondWithError StatusInternalServerError (err_Error err))], Returned db')"
    by (simp add: CreateLogin_def Let_def)
  have update: "ctx r ''transmissionKey'' = Some tk
      \<and> ToBody D (GetString (conv D) v e ''server.env'') tk (body r) = Inr body'
      \<and> DecodeLoginDTO D body' = Inr loginDTO \<and> ctx r ''schema'' = Some schema
      \<and> Atoi (conv D) (mux_Vars r ''id'') = Inr n \<and> Logins_FindByID D (of_int n) schema db = Inr login
      \<and> app_UpdateLogin D login loginDTO schema db = (Inr updatedLogin, db')
      \<and> DecryptModel D updatedLogin = Inl err
          \<longrightarrow> UpdateLogin D v e r db =
          ([EvToBody (GetString (conv D) v e ''server.env'') tk (body r), EvJSONDecode body',
            EvLoginsFindByID (of_int n) schema, EvAppUpdateLogin login loginDTO schema,
            EvDecryptModel updatedLogin,
            EvRespond (RespondWithError StatusInternalServerError (err_Error err))], Returned db')"
    by (simp add: UpdateLogin_def Let_def)
  show ?thesis
    using FindAllLogins_decrypts(2) [of r tk schema D db loginList k err us] one create update
    by blast
qed

theorem C7_decrypt_failure_status_and_text_witness:
  "FindAllLogins sampleApi (sampleRequest ''2'' ''enc:{}'') sampleStore =
     ([EvLoginsAll ''user1'', EvDecryptModel \<lparr>Login.ID = 1, \<dots> = ''Y2lwaGVy''\<rparr>,
       EvDecryptModel \<lparr>Login.ID = 2, \<dots> = ''tampered''\<rparr>,
       EvRespond (RespondWithError 500 ''cipher: message authentication failed'')],
      Returned sampleStore)
   \<and> FindLoginsByID sampleApi (sampleRequest ''2'' ''enc:{}'') sampleStore =
     ([EvLoginsFindByID 2 ''user1'', EvDecryptModel \<lparr>Login.ID = 2, \<dots> = ''tampered''\<rparr>,
       EvRespond (RespondWithError 500 ''cipher: message authentication failed'')],
      Returned sampleStore)
   \<and> CreateLogin (sampleApi\<lparr>app_CreateLogin := (\<lambda>dto schema db. (Inr \<lparr>Login.ID = 3, \<dots> = ''tampered''\<rparr>, db))\<rparr>)
        viper_New Map.empty (sampleRequest ''2'' ''enc:{}'') sampleStore =
     ([EvToBody [] ''k3y'' ''enc:{}'', EvJSONDecode ''{}'',
       EvAppCreateLogin \<lparr>LoginDTO.ID = 0, \<dots> = ''p@ss''\<rparr> ''user1'',
       EvDecryptModel \<lparr>Login.ID = 3, \<dots> = ''tampered''\<rparr>,
       EvRespond (RespondWithError 500 ''cipher: message authentication failed'')],
      Returned sampleStore)
   \<and> UpdateLogin (sampleApi\<lparr>app_UpdateLogin := (\<lambda>login dto schema db. (Inr login, db))\<rparr>)
        viper_New Map.empty (sampleRequest ''2'' ''enc:{}'') sampleStore =
     ([EvToBody [] ''k3y'' ''enc:{}'', EvJSONDecode ''{}'',
       EvLoginsFindByID 2 ''user1'',
       EvAppUpdateLogin \<lparr>Login.ID = 2, \<dots> = ''tampered''\<rparr> \<lparr>LoginDTO.ID = 0, \<dots> = ''p@ss''\<rparr> ''user1'',
       EvDecryptModel \<lparr>Login.ID = 2, \<dots> = ''tampered''\<rparr>,
       EvRespond (RespondWithError 500 ''cipher: message authentication failed'')],
      Returned sampleStore)"
proof -
  let ?l1 = "\<lparr>Login.ID = 1, \<dots> = ''Y2lwaGVy''\<rparr>"
  let ?l2 = "\<lparr>Login.ID = 2, \<dots> = ''tampered''\<rparr>"
  let ?l3 = "\<lparr>Login.ID = 3, \<dots> = ''tampered''\<rparr>"
  let ?dto = "\<lparr>LoginDTO.ID = 0, \<dots> = ''p@ss''\<rparr>"
  let ?r = "sampleRequest ''2'' ''enc:{}''"
  let ?err = "Error ''cipher: message authentication failed''"
  note a = C7_decrypt_failure_status_and_text [where r = ?r and tk = "''k3y''"
      and schema = "''user1''" and D = sampleApi and db = sampleStore and loginList = sampleStore
      and k = 1 and us = "[\<lparr>Login.ID = 1, \<dots> = ''p@ss''\<rparr>]"
      and n = 2 and login = ?l2 and err = ?err
      and v = viper_New and e = Map.empty and body' = "''{}''" and loginDTO = ?dto
      and createdLogin = ?l3 and db' = sampleStore and updatedLogin = ?l2]
  note b = C7_decrypt_failure_status_and_text [where r = ?r and tk = "''k3y''"
      and schema = "''user1''"
      and D = "sampleApi\<lparr>app_CreateLogin := (\<lambda>dto schema db. (Inr ?l3, db))\<rparr>"
      and db = sampleStore and loginList = sampleStore
      and k = 1 and us = "[\<lparr>Login.ID = 1, \<dots> = ''p@ss''\<rparr>]"
      and n = 2 and login = ?l2 and err = ?err
      and v = viper_New and e = Map.empty and body' = "''{}''" and loginDTO = ?dto
      and createdLogin = ?l3 and db' = sampleStore and updatedLogin = ?l2]
  note c = C7_decrypt_failure_status_and_text [where r = ?r and tk = "''k3y''"
      and schema = "''user1''"
      and D = "sampleApi\<lparr>app_UpdateLogin := (\<lambda>login dto schema db. (Inr login, db))\<rparr>"
      and db = sampleStore and loginList = sampleStore
      and k = 1 and us = "[\<lparr>Login.ID = 1, \<dots> = ''p@ss''\<rparr>]"
      and n = 2 and login = ?l2 and err = ?err
      and v = viper_New and e = Map.empty and body' = "''{}''" and loginDTO = ?dto
      and createdLogin = ?l3 and db' = sampleStore and updatedLogin = ?l2]
  have 1: "FindAllLogins sampleApi ?r sampleStore =
     ([EvLoginsAll ''user1'', EvDecryptModel ?l1, EvDecryptModel ?l2,
       EvRespond (RespondWithError 500 ''cipher: message authentication failed'')],
      Returned sampleStore)"
    using a by (simp add: sample_simps)
  have 2: "FindLoginsByID sampleApi ?r sampleStore =
     ([EvLoginsFindByID 2 ''user1'', EvDecryptModel ?l2,
       EvRespond (RespondWithError 500 ''cipher: message authentication failed'')],
      Returned sampleStore)"
    using a by (simp add: sample_simps Atoi_2)
  have 3: "CreateLogin (sampleApi\<lparr>app_CreateLogin := (\<lambda>dto schema db. (Inr ?l3, db))\<rparr>)
        viper_New Map.empty ?r sampleStore =
     ([EvToBody [] ''k3y'' ''enc:{}'', EvJSONDecode ''{}'',
       EvAppCreateLogin ?dto ''user1'', EvDecryptModel ?l3,
       EvRespond (RespondWithError 500 ''cipher: message authentication failed'')],
      Returned sampleStore)"
    using b by (simp add: sample_simps Atoi_2)
  have 4: "UpdateLogin (sampleApi\<lparr>app_UpdateLogin := (\<lambda>login dto schema db. (Inr login, db))\<rparr>)
        viper_New Map.empty ?r sampleStore =
     ([EvToBody [] ''k3y'' ''enc:{}'', EvJSONDecode ''{}'',
       EvLoginsFindByID 2 ''user1'', EvAppUpdateLogin ?l2 ?dto ''user1'', EvDecryptModel ?l2,
       EvRespond (RespondWithError 500 ''cipher: message authentication failed'')],
      Returned sampleStore)"
    using c by (simp add: sample_simps Atoi_2)
  from 1 2 3 4 show ?thesis by blast
qed

lemma BulkUpdateLogins_decode_failed:
  assumes "ctx r ''transmissionKey'' = Some tk"
    and "ToBody D (GetString (conv D) v e ''server.env'') tk (body r) = Inr body'"
    and "DecodeLoginList D body' = (Some err, loginList)"
  shows "BulkUpdateLogins D v e r db =
      (case bulkUpdateLoop D r loginList db of
         (evs, Inl ended) \<Rightarrow>
           ([EvToBody (GetString (conv D) v e ''server.env'') tk (body r), EvJSONDecode body',
             EvRespond (RespondWithError StatusInternalServerError (err_Error err))] @ evs, ended)
       | (evs, Inr db') \<Rightarrow>
           ([EvToBody (GetString (conv D) v e ''server.env'') tk (body r), EvJSONDecode body',
             EvRespond (RespondWithError StatusInternalServerError (err_Error err))] @ evs @
            [EvRespond (RespondWithJSON StatusOK
               (PResponse \<lparr>Code = StatusOK, Status = ''Success'',
                           Message = ''Bulk update completed successfully!''\<rparr>))],
            Returned db'))"
  using assms by (simp add: BulkUpdateLogins_def Let_def split: prod.splits sum.splits)

text \<open>
  C10. In \<open>BulkUpdateLogins\<close>, when the JSON decoding of the opened request body fails, the
  handler writes an error response (status 500 with the decoding error's text) and does
  not return: it runs the update loop over whatever the decoder left in the list (nothing,
  or the elements decoded so far), and when that loop completes it writes a second
  response, the success message. The loop over an empty list completes at once.
\<close>

theorem C10_bulk_update_continues_after_decode_error:
  "(ctx r ''transmissionKey'' = Some tk
    \<and> ToBody D (GetString (conv D) v e ''server.env'') tk (body r) = Inr body'
    \<and> DecodeLoginList D body' = (Some err, loginList)
   \<longrightarrow> BulkUpdateLogins D v e r db =
      (case bulkUpdateLoop D r loginList db of
         (evs, Inl ended) \<Rightarrow>
           ([EvToBody (GetString (conv D) v e ''server.env'') tk (body r), EvJSONDecode body',
             EvRespond (RespondWithError StatusInternalServerError (err_Error err))] @ evs, ended)
       | (evs, Inr db') \<Rightarrow>
           ([EvToBody (GetString (conv D) v e ''server.env'') tk (body r), EvJSONDecode body',
             EvRespond (RespondWithError StatusInternalServerError (err_Error err))] @ evs @
            [EvRespond (RespondWithJSON StatusOK
               (PResponse \<lparr>Code = StatusOK, Status = ''Success'',
                           Message = ''Bulk update completed successfully!''\<rparr>))],
            Returned db')))
   \<and> bulkUpdateLoop D r [] db = ([], Inr db)"
  using BulkUpdateLogins_decode_failed [of r tk D v e body' err loginList db] by simp

theorem C10_bulk_update_continues_after_decode_error_witness:
  "BulkUpdateLogins sampleApi viper_New Map.empty (sampleRequest [] ''enc:{'') sampleStore =
     ([EvToBody [] ''k3y'' ''enc:{'', EvJSONDecode ''{'',
       EvRespond (RespondWithError 500 ''invalid character''),
       EvRespond (RespondWithJSON 200
         (PResponse \<lparr>Code = 200, Status = ''Success'', Message = ''Bulk update completed successfully!''\<rparr>))],
      Returned sampleStore)
   \<and> BulkUpdateLogins sampleApi viper_New Map.empty (sampleRequest [] ''enc:[{},'') sampleStore =
     ([EvToBody [] ''k3y'' ''enc:[{},'', EvJSONDecode ''[{},'',
       EvRespond (RespondWithError 500 ''unexpected EOF''),
       EvLoginsFindByID 1 ''user1'',
       EvAppUpdateLogin \<lparr>Login.ID = 1, \<dots> = ''Y2lwaGVy''\<rparr> \<lparr>LoginDTO.ID = 1, \<dots> = ''n3w''\<rparr> ''user1'',
       EvRespond (RespondWithJSON 200
         (PResponse \<lparr>Code = 200, Status = ''Success'', Message = ''Bulk update completed successfully!''\<rparr>))],
      Returned sampleStore)"
proof -
  note a = C10_bulk_update_continues_after_decode_error [where r = "sampleRequest [] ''enc:{''"
      and tk = "''k3y''" and D = sampleApi and v = viper_New and e = Map.empty and body' = "''{''"
      and err = "Error ''invalid character''" and loginList = "[]" and db = sampleStore]
  note b = C10_bulk_update_continues_after_decode_error [where r = "sampleRequest [] ''enc:[{},''"
      and tk = "''k3y''" and D = sampleApi and v = viper_New and e = Map.empty and body' = "''[{},''"
      and err = "Error ''unexpected EOF''" and loginList = "[\<lparr>LoginDTO.ID = 1, \<dots> = ''n3w''\<rparr>]"
      and db = sampleStore]
  have 1: "BulkUpdateLogins sampleApi viper_New Map.empty (sampleRequest [] ''enc:{'') sampleStore =
     ([EvToBody [] ''k3y'' ''enc:{'', EvJSONDecode ''{'',
       EvRespond (RespondWithError 500 ''invalid character''),
       EvRespond (RespondWithJSON 200
         (PResponse \<lparr>Code = 200, Status = ''Success'', Message = ''Bulk update completed successfully!''\<rparr>))],
      Returned sampleStore)"
    using a by (simp add: sample_simps)
  have 2: "BulkUpdateLogins sampleApi viper_New Map.empty (sampleRequest [] ''enc:[{},'') sampleStore =
     ([EvToBody [] ''k3y'' ''enc:[{},'', EvJSONDecode ''[{},'',
       EvRespond (RespondWithError 500 ''unexpected EOF''),
       EvLoginsFindByID 1 ''user1'',
       EvAppUpdateLogin \<lparr>Login.ID = 1, \<dots> = ''Y2lwaGVy''\<rparr> \<lparr>LoginDTO.ID = 1, \<dots> = ''n3w''\<rparr> ''user1'',
       EvRespond (RespondWithJSON 200
         (PResponse \<lparr>Code = 200, Status = ''Success'', Message = ''Bulk update completed successfully!''\<rparr>))],
      Returned sampleStore)"
    using b by (simp add: sample_simps)
  from 1 2 show ?thesis by blast
qed

section \<open>The default operating mode\<close>










section \<open>Properties of the record cipher and the engine\<close>

lemma length_encodeStd: "length encodeStd = 64"
  by (simp add: encodeStd_def)

lemma distinct_encodeStd: "distinct encodeStd"
  by (simp add: encodeStd_def)

lemma decode6_encode6: "decode6 (encode6 n) = Some (n mod 64)"
proof -
  have "map_of (zip encodeStd [0..<64]) (encodeStd ! (n mod 64)) = Some ([0..<64] ! (n mod 64))"
    by (rule map_of_zip_nth) (simp_all add: length_encodeStd distinct_encodeStd)
  then show ?thesis
    by (simp add: decode6_def encode6_def)
qed

lemma encode6_not_padding: "encode6 n \<noteq> StdPadding"
proof -
  have "StdPadding \<notin> set encodeStd"
    by (simp add: encodeStd_def StdPadding_def)
  moreover have "encode6 n \<in> set encodeStd"
    by (simp add: encode6_def length_encodeStd)
  ultimately show ?thesis by metis
qed

lemma sextets:
  fixes val :: nat
  assumes "val < 16777216"
  shows "(val div 262144 mod 64) * 262144 + (val div 4096 mod 64) * 4096
           + (val div 64 mod 64) * 64 + val mod 64 = val"
proof -
  have 1: "val mod 4096 = 64 * (val div 64 mod 64) + val mod 64"
    using mod_mult2_eq [of val 64 64] by simp
  have 2: "val mod 262144 = 4096 * (val div 4096 mod 64) + val mod 4096"
    using mod_mult2_eq [of val 4096 64] by simp
  have 3: "val mod 16777216 = 262144 * (val div 262144 mod 64) + val mod 262144"
    using mod_mult2_eq [of val 262144 64] by simp
  have 4: "val mod 16777216 = val"
    using assms by simp
  show ?thesis
    using 1 2 3 4 by linarith
qed

lemma byte_consts: "(65536 :: byte) = 0" "(256 :: byte) = 0"
  by simp_all

lemma byte3:
  fixes a b c :: byte
  shows "(of_nat ((unat a * 65536 + unat b * 256 + unat c) div 65536) :: byte) = a"
    and "(of_nat ((unat a * 65536 + unat b * 256 + unat c) div 256) :: byte) = b"
    and "(of_nat (unat a * 65536 + unat b * 256 + unat c) :: byte) = c"
proof -
  have b: "unat b < 256" "unat c < 256" "unat a < 256"
    using unsigned_less [of b, where 'a = nat] unsigned_less [of c, where 'a = nat]
      unsigned_less [of a, where 'a = nat] by simp_all
  have 1: "(unat a * 65536 + unat b * 256 + unat c) div 65536 = unat a"
    using b by (intro div_nat_eqI) simp_all
  have 2: "(unat a * 65536 + unat b * 256 + unat c) div 256 = unat a * 256 + unat b"
    using b by (intro div_nat_eqI) simp_all
  show "(of_nat ((unat a * 65536 + unat b * 256 + unat c) div 65536) :: byte) = a"
    by (simp only: 1 of_nat_unat ucast_id)
  have "(of_nat (unat a * 256 + unat b) :: byte) = of_nat (unat a) * 256 + of_nat (unat b)"
    by (simp only: of_nat_add of_nat_mult of_nat_numeral)
  also have "\<dots> = b"
    by (simp only: byte_consts of_nat_unat ucast_id mult_zero_right add_0)
  finally show "(of_nat ((unat a * 65536 + unat b * 256 + unat c) div 256) :: byte) = b"
    by (simp only: 2)
  have "(of_nat (unat a * 65536 + unat b * 256 + unat c) :: byte)
      = of_nat (unat a) * 65536 + of_nat (unat b) * 256 + of_nat (unat c)"
    by (simp only: of_nat_add of_nat_mult of_nat_numeral)
  also have "\<dots> = c"
    by (simp only: byte_consts of_nat_unat ucast_id mult_zero_right add_0)
  finally show "(of_nat (unat a * 65536 + unat b * 256 + unat c) :: byte) = c" .
qed

lemma val24:
  fixes a b c :: byte
  shows "unat a * 65536 + unat b * 256 + unat c < 16777216"
proof -
  have "unat b < 256" "unat c < 256" "unat a < 256"
    using unsigned_less [of b, where 'a = nat] unsigned_less [of c, where 'a = nat]
      unsigned_less [of a, where 'a = nat] by simp_all
  then show ?thesis by linarith
qed

lemma DecodeString_quad:
  assumes "val < 16777216" "DecodeString s = Some dst"
  shows "DecodeString (encode6 (val div 262144) # encode6 (val div 4096) # encode6 (val div 64)
            # encode6 val # s)
         = Some (of_nat (val div 65536) # of_nat (val div 256) # of_nat val # dst)"
  using assms sextets [OF assms(1)]
  by (simp add: decode6_encode6 encode6_not_padding Let_def)

lemma DecodeString_pad1:
  assumes "val < 16777216" "val mod 64 = 0"
  shows "DecodeString [encode6 (val div 262144), encode6 (val div 4096), encode6 (val div 64), StdPadding]
         = Some [of_nat (val div 65536), of_nat (val div 256)]"
  using assms sextets [OF assms(1)]
  by (simp add: decode6_encode6 encode6_not_padding Let_def)

lemma DecodeString_pad2:
  assumes "val < 16777216" "val mod 64 = 0" "val div 64 mod 64 = 0"
  shows "DecodeString [encode6 (val div 262144), encode6 (val div 4096), StdPadding, StdPadding]
         = Some [of_nat (val div 65536)]"
  using assms sextets [OF assms(1)]
  by (simp add: decode6_encode6 encode6_not_padding Let_def)

lemma DecodeString_EncodeToString: "DecodeString (EncodeToString src) = Some src"
proof (induction src rule: EncodeToString.induct)
  case (1 a b c src)
  show ?case
    using DecodeString_quad [OF val24 [of a b c] 1] byte3 [of a b c]
    by (simp add: Let_def)
next
  case (2 a b)
  have m: "(unat a * 65536 + unat b * 256 + unat (0 :: byte)) mod 64 = 0"
    by simp
  show ?case
    using DecodeString_pad1 [OF val24 [of a b 0] m] byte3 [of a b 0]
    by (simp add: Let_def)
next
  case (3 a)
  have m: "(unat a * 65536 + unat (0 :: byte) * 256 + unat (0 :: byte)) mod 64 = 0"
      "(unat a * 65536 + unat (0 :: byte) * 256 + unat (0 :: byte)) div 64 mod 64 = 0"
    by simp_all
  show ?case
    using DecodeString_pad2 [OF val24 [of a 0 0] m] byte3 [of a 0 0]
    by (simp add: Let_def)
next
  case 4
  show ?case by simp
qed

lemma stringOf_bytesOf: "stringOf (bytesOf s) = s"
proof -
  have "char_of (unat (of_nat (of_char c) :: byte)) = c" for c :: char
    by (simp add: unat_of_nat)
  then show ?thesis
    by (simp add: stringOf_def bytesOf_def comp_def map_idI)
qed

lemma decryptField_encryptField:
  assumes "aeadCorrectAt A key nonce (bytesOf p)"
  shows "decryptField A key (encryptField A key nonce p) = Inr p"
proof -
  obtain tag ct where seal: "aead_Seal A key nonce (bytesOf p) = (tag, ct)"
    by (cases "aead_Seal A key nonce (bytesOf p)")
  from assms seal have n: "length nonce = NonceSize A" and t: "length tag = TagSize A"
    and opn: "aead_Open A key nonce tag ct = Some (bytesOf p)"
    by (simp_all add: aeadCorrectAt_def)
  have enc: "encryptField A key nonce p = EncodeToString (nonce @ tag @ ct)"
    by (simp add: encryptField_def seal)
  show ?thesis
    unfolding enc decryptField_def DecodeString_EncodeToString
    using n t opn by (simp add: Let_def stringOf_bytesOf)
qed

lemma decryptValue_encryptValue:
  assumes "field \<in> set (SensitiveFields E) \<longrightarrow>
        aeadCorrectAt (cipher E) (AtRestKey E) (nonceFor E field) (bytesOf val)"
  shows "decryptValue E field (encryptValue E field val) = Inr val"
  using assms by (simp add: decryptValue_def encryptValue_def decryptField_encryptField)

lemma decryptRecord_encryptRecord:
  "engineCorrectOn E r \<Longrightarrow> decryptRecord E (encryptRecord E r) = Inr r"
proof (induction r)
  case Nil
  then show ?case by (simp add: encryptRecord_def)
next
  case (Cons fv r)
  obtain field val where fv: "fv = (field, val)" by (cases fv)
  from Cons.prems have here: "field \<in> set (SensitiveFields E) \<longrightarrow>
        aeadCorrectAt (cipher E) (AtRestKey E) (nonceFor E field) (bytesOf val)"
    and rest: "engineCorrectOn E r"
    by (simp_all add: engineCorrectOn_def fv)
  from Cons.IH [OF rest] have ih: "decryptRecord E (map (\<lambda>(field, val). (field, encryptValue E field val)) r) = Inr r"
    by (simp add: encryptRecord_def)
  show ?case
    by (simp add: encryptRecord_def fv decryptValue_encryptValue [OF here] ih)
qed

lemma encryptRecord_passes_through:
  assumes "i < length r" "fst (r ! i) \<notin> set (SensitiveFields E)"
  shows "encryptRecord E r ! i = r ! i"
  using assms by (cases "r ! i") (simp add: encryptRecord_def encryptValue_def)

lemma sample_seal: "aeadCorrectAt sampleAead [7] [1, 2] (bytesOf ''p@ss'')"
  by (simp add: aeadCorrectAt_def sampleAead_def firstByte_def bytesOf_def comp_def)

lemma sample_encrypt: "encryptField sampleAead [7] [1, 2] ''p@ss'' = ''AQILcUF0dA==''"
  by (simp add: encryptField_def sampleAead_def firstByte_def bytesOf_def Let_def encode6_def
      encodeStd_def StdPadding_def)

text \<open>
  C4. Round trip. For every plaintext \<open>p\<close> and a fixed key, wherever the cipher parameter
  is correct (the nonce and tag have the declared lengths and opening what was sealed gives
  the plaintext back), \<open>decryptField\<close> of \<open>encryptField\<close> of \<open>p\<close> is \<open>p\<close>: the
  concatenation of nonce, tag and ciphertext, the base64 encoding, the decoding and the
  splitting lose nothing. For every record with sensitive and other fields,
  \<open>decryptRecord\<close> of \<open>encryptRecord\<close> of the record is the record, and every field that
  is not sensitive is the same in the encrypted record as in the original.
\<close>

theorem C4_round_trip:
  "(aeadCorrectAt A key nonce (bytesOf p) \<longrightarrow>
      decryptField A key (encryptField A key nonce p) = Inr p)
   \<and> (engineCorrectOn E r \<longrightarrow>
      decryptRecord E (encryptRecord E r) = Inr r
      \<and> (\<forall>i<length r. fst (r ! i) \<notin> set (SensitiveFields E) \<longrightarrow> encryptRecord E r ! i = r ! i))"
  using decryptField_encryptField [of A key nonce p] decryptRecord_encryptRecord [of E r]
    encryptRecord_passes_through [of _ r E]
  by blast

theorem C4_round_trip_witness:
  "aeadCorrectAt sampleAead [7] [1, 2] (bytesOf ''p@ss'')
   \<and> encryptField sampleAead [7] [1, 2] ''p@ss'' = ''AQILcUF0dA==''
   \<and> decryptField sampleAead [7] ''AQILcUF0dA=='' = Inr ''p@ss''
   \<and> engineCorrectOn sampleEngine [(''Title'', ''mail''), (''Email'', ''a@b.c''), (''Password'', ''p@ss'')]
   \<and> encryptRecord sampleEngine [(''Title'', ''mail''), (''Email'', ''a@b.c''), (''Password'', ''p@ss'')]
       = [(''Title'', ''mail''), (''Email'', ''a@b.c''), (''Password'', ''AQILcUF0dA=='')]
   \<and> decryptRecord sampleEngine [(''Title'', ''mail''), (''Email'', ''a@b.c''), (''Password'', ''AQILcUF0dA=='')]
       = Inr [(''Title'', ''mail''), (''Email'', ''a@b.c''), (''Password'', ''p@ss'')]"
proof -
  let ?r = "[(''Title'', ''mail''), (''Email'', ''a@b.c''), (''Password'', ''p@ss'')]"
  have ok: "engineCorrectOn sampleEngine ?r"
    using sample_seal by (simp add: engineCorrectOn_def sampleEngine_def)
  have enc: "encryptRecord sampleEngine ?r
       = [(''Title'', ''mail''), (''Email'', ''a@b.c''), (''Password'', ''AQILcUF0dA=='')]"
    using sample_encrypt by (simp add: encryptRecord_def encryptValue_def sampleEngine_def)
  note c = C4_round_trip [of sampleAead "[7]" "[1, 2]" "''p@ss''" sampleEngine ?r]
  from c sample_seal have "decryptField sampleAead [7] (encryptField sampleAead [7] [1, 2] ''p@ss'') = Inr ''p@ss''"
    by blast
  then have f: "decryptField sampleAead [7] ''AQILcUF0dA=='' = Inr ''p@ss''"
    unfolding sample_encrypt .
  from c ok have "decryptRecord sampleEngine (encryptRecord sampleEngine ?r) = Inr ?r"
    by blast
  then have r: "decryptRecord sampleEngine [(''Title'', ''mail''), (''Email'', ''a@b.c''), (''Password'', ''AQILcUF0dA=='')]
       = Inr ?r"
    unfolding enc .
  from sample_seal sample_encrypt f ok enc r show ?thesis by blast
qed

section \<open>Properties of the email flows\<close>

lemma encryptEmail_fields:
  "Title (encryptEmail E m) = encryptValue E ''Title'' (Title m)"
  "Email.Email (encryptEmail E m) = encryptValue E ''Email'' (Email.Email m)"
  "Email.Password (encryptEmail E m) = encryptValue E ''Password'' (Email.Password m)"
  "Email.more (encryptEmail E m) = Email.more m"
  by (simp_all add: encryptEmail_def Email_with_def Email_fields_def encryptRecord_def)

lemma Return_collapse:
  "(case x of (Inl err, st') \<Rightarrow> Return (Inl err, st') | (Inr p, st') \<Rightarrow> Return (Inr p, st')) = Return x"
  by (cases x) (auto split: sum.splits)

lemma CreateEmail_eq:
  "CreateEmail s E dto schema (mem, db) =
     ([Call_Create (Suc (length mem)) (mem @ [ToEmail s dto, encryptEmail E (ToEmail s dto)]) schema],
      Return (Emails_Create s (Suc (length mem)) schema
                (mem @ [ToEmail s dto, encryptEmail E (ToEmail s dto)], db)))"
  by (simp add: CreateEmail_def EncryptModel_def new_def load_def Return_collapse nth_append)

lemma UpdateEmail_eq:
  assumes "email < length mem"
  shows "UpdateEmail s E email dto schema (mem, db) =
     ([Call_Update email
         ((mem @ [ToEmail s dto, encryptEmail E (ToEmail s dto)])
            [email := (mem ! email)\<lparr>Title := Title (encryptEmail E (ToEmail s dto)),
                                    Email.Email := Email.Email (encryptEmail E (ToEmail s dto)),
                                    Email.Password := Email.Password (encryptEmail E (ToEmail s dto))\<rparr>])
         schema],
      Return (Emails_Update s email schema
         ((mem @ [ToEmail s dto, encryptEmail E (ToEmail s dto)])
            [email := (mem ! email)\<lparr>Title := Title (encryptEmail E (ToEmail s dto)),
                                    Email.Email := Email.Email (encryptEmail E (ToEmail s dto)),
                                    Email.Password := Email.Password (encryptEmail E (ToEmail s dto))\<rparr>],
          db)))"
  using assms
  by (simp add: UpdateEmail_def EncryptModel_def new_def load_def Return_collapse nth_append Let_def)

lemma UpdateEmail_nil:
  assumes "length mem + 2 \<le> email"
  shows "UpdateEmail s E email dto schema (mem, db) = ([], Panic)"
  using assms
  by (simp add: UpdateEmail_def EncryptModel_def new_def load_def nth_append Let_def)

lemma length_encryptField:
  "length (encryptField A key nonce p) =
     4 * ((length nonce + length (fst (aead_Seal A key nonce (bytesOf p)))
            + length (snd (aead_Seal A key nonce (bytesOf p))) + 2) div 3)"
  by (cases "aead_Seal A key nonce (bytesOf p)")
     (simp add: encryptField_def length_EncodeToString add.assoc)

lemma encryptField_not_plaintext:
  assumes "0 < length nonce" "length p \<le> length (snd (aead_Seal A key nonce (bytesOf p)))"
  shows "encryptField A key nonce p \<noteq> p"
proof -
  define n where "n = length nonce + length (fst (aead_Seal A key nonce (bytesOf p)))
            + length (snd (aead_Seal A key nonce (bytesOf p)))"
  have "length p + 3 \<le> n + 2"
    using assms unfolding n_def by linarith
  then have "(length p + 3) div 3 \<le> (n + 2) div 3"
    by (rule div_le_mono)
  moreover have "(length p + 3) div 3 = Suc (length p div 3)"
    by simp
  moreover have "length p = 3 * (length p div 3) + length p mod 3" "length p mod 3 < 3"
    by simp_all
  ultimately have "length p < 4 * ((n + 2) div 3)"
    by linarith
  then have "length p < length (encryptField A key nonce p)"
    by (simp add: length_encryptField n_def)
  then show ?thesis by auto
qed

lemmas sampleApp_simps = sampleApp_def sampleEngine_def sampleAead_def firstByte_def encryptEmail_def Email_with_def
  Email_fields_def encryptRecord_def encryptValue_def encryptField_def bytesOf_def Let_def
  encode6_def encodeStd_def StdPadding_def load_def nth_append

text \<open>
  C1. In the create and the update flow the record that the store's \<open>Create\<close> or \<open>Update\<close>
  is handed has been through the Model Encryption Engine, and the store is called once,
  after the encryption, on exactly that memory. \<open>Create\<close> is handed the encrypted copy of
  the record built from the DTO. \<open>Update\<close> is handed the existing record with its title,
  email and password taken from that encrypted copy. In the encrypted copy each of the
  three fields is the engine's \<open>encryptValue\<close> of the DTO's value; for a sensitive
  field that is \<open>encryptField\<close> under the at-rest key, and it differs from the plaintext
  whenever the nonce is not empty and the cipher does not shorten the plaintext.
\<close>

theorem C1_encrypted_before_persistence:
  "map handed (fst (CreateEmail s E dto schema (mem, db))) = [Some (encryptEmail E (ToEmail s dto))]
   \<and> snd (CreateEmail s E dto schema (mem, db)) =
       Return (Emails_Create s (Suc (length mem)) schema
                 (mem @ [ToEmail s dto, encryptEmail E (ToEmail s dto)], db))
   \<and> (email < length mem \<longrightarrow>
        map handed (fst (UpdateEmail s E email dto schema (mem, db))) =
          [Some ((mem ! email)\<lparr>Title := Title (encryptEmail E (ToEmail s dto)),
                                Email := Email (encryptEmail E (ToEmail s dto)),
                                Password := Password (encryptEmail E (ToEmail s dto))\<rparr>)]
        \<and> map memoryAt (fst (UpdateEmail s E email dto schema (mem, db))) =
            [(mem @ [ToEmail s dto, encryptEmail E (ToEmail s dto)])
               [email := (mem ! email)\<lparr>Title := Title (encryptEmail E (ToEmail s dto)),
                                       Email := Email (encryptEmail E (ToEmail s dto)),
                                       Password := Password (encryptEmail E (ToEmail s dto))\<rparr>]]
        \<and> snd (UpdateEmail s E email dto schema (mem, db)) =
            Return (Emails_Update s email schema
              ((mem @ [ToEmail s dto, encryptEmail E (ToEmail s dto)])
                 [email := (mem ! email)\<lparr>Title := Title (encryptEmail E (ToEmail s dto)),
                                         Email := Email (encryptEmail E (ToEmail s dto)),
                                         Password := Password (encryptEmail E (ToEmail s dto))\<rparr>],
               db)))
   \<and> Title (encryptEmail E m) = encryptValue E ''Title'' (Title m)
   \<and> Email (encryptEmail E m) = encryptValue E ''Email'' (Email m)
   \<and> Password (encryptEmail E m) = encryptValue E ''Password'' (Password m)
   \<and> (field \<in> set (SensitiveFields E) \<longrightarrow>
        encryptValue E field val = encryptField (cipher E) (AtRestKey E) (nonceFor E field) val
        \<and> (0 < length (nonceFor E field)
            \<and> length val \<le> length (snd (aead_Seal (cipher E) (AtRestKey E) (nonceFor E field) (bytesOf val)))
           \<longrightarrow> encryptValue E field val \<noteq> val))"
proof -
  have c: "map handed (fst (CreateEmail s E dto schema (mem, db))) = [Some (encryptEmail E (ToEmail s dto))]
   \<and> snd (CreateEmail s E dto schema (mem, db)) =
       Return (Emails_Create s (Suc (length mem)) schema
                 (mem @ [ToEmail s dto, encryptEmail E (ToEmail s dto)], db))"
    by (simp add: CreateEmail_eq load_def nth_append)
  have u: "email < length mem \<longrightarrow>
        map handed (fst (UpdateEmail s E email dto schema (mem, db))) =
          [Some ((mem ! email)\<lparr>Title := Title (encryptEmail E (ToEmail s dto)),
                                Email := Email (encryptEmail E (ToEmail s dto)),
                                Password := Password (encryptEmail E (ToEmail s dto))\<rparr>)]
        \<and> map memoryAt (fst (UpdateEmail s E email dto schema (mem, db))) =
            [(mem @ [ToEmail s dto, encryptEmail E (ToEmail s dto)])
               [email := (mem ! email)\<lparr>Title := Title (encryptEmail E (ToEmail s dto)),
                                       Email := Email (encryptEmail E (ToEmail s dto)),
                                       Password := Password (encryptEmail E (ToEmail s dto))\<rparr>]]
        \<and> snd (UpdateEmail s E email dto schema (mem, db)) =
            Return (Emails_Update s email schema
              ((mem @ [ToEmail s dto, encryptEmail E (ToEmail s dto)])
                 [email := (mem ! email)\<lparr>Title := Title (encryptEmail E (ToEmail s dto)),
                                         Email := Email (encryptEmail E (ToEmail s dto)),
                                         Password := Password (encryptEmail E (ToEmail s dto))\<rparr>],
               db))"
    by (simp add: UpdateEmail_eq load_def nth_append)
  have f: "field \<in> set (SensitiveFields E) \<longrightarrow>
        encryptValue E field val = encryptField (cipher E) (AtRestKey E) (nonceFor E field) val
        \<and> (0 < length (nonceFor E field)
            \<and> length val \<le> length (snd (aead_Seal (cipher E) (AtRestKey E) (nonceFor E field) (bytesOf val)))
           \<longrightarrow> encryptValue E field val \<noteq> val)"
    using encryptField_not_plaintext [of "nonceFor E field" val "cipher E" "AtRestKey E"]
    by (simp add: encryptValue_def)
  from c u f encryptEmail_fields(1-3) [of E m] show ?thesis by blast
qed

theorem C1_encrypted_before_persistence_witness:
  "map handed (fst (CreateEmail sampleApp sampleEngine
       \<lparr>dtoTitle = ''mail'', dtoEmail = ''a@b.c'', dtoPassword = ''p@ss''\<rparr> ''user1'' ([], ())))
     = [Some \<lparr>Title = ''mail'', Email = ''a@b.c'', Password = ''AQILcUF0dA==''\<rparr>]
   \<and> (0::nat) < length [\<lparr>Title = ''old'', Email = ''x@y.z'', Password = ''AQIH''\<rparr>]
   \<and> map handed (fst (UpdateEmail sampleApp sampleEngine 0
       \<lparr>dtoTitle = ''mail'', dtoEmail = ''a@b.c'', dtoPassword = ''p@ss''\<rparr> ''user1''
       ([\<lparr>Title = ''old'', Email = ''x@y.z'', Password = ''AQIH''\<rparr>], ())))
     = [Some \<lparr>Title = ''mail'', Email = ''a@b.c'', Password = ''AQILcUF0dA==''\<rparr>]
   \<and> ''Password'' \<in> set (SensitiveFields sampleEngine)
   \<and> 0 < length (nonceFor sampleEngine ''Password'')
   \<and> length ''p@ss'' \<le> length (snd (aead_Seal (cipher sampleEngine) (AtRestKey sampleEngine)
                                     (nonceFor sampleEngine ''Password'') (bytesOf ''p@ss'')))
   \<and> encryptValue sampleEngine ''Password'' ''p@ss'' \<noteq> ''p@ss''"
proof -
  let ?dto = "\<lparr>dtoTitle = ''mail'', dtoEmail = ''a@b.c'', dtoPassword = ''p@ss''\<rparr>"
  let ?old = "\<lparr>Title = ''old'', Email = ''x@y.z'', Password = ''AQIH''\<rparr>"
  note c = C1_encrypted_before_persistence [where s = sampleApp and E = sampleEngine and dto = ?dto
      and schema = "''user1''" and mem = "[]" and db = "()" and email = 0 and field = "''Password''"
      and val = "''p@ss''" and m = "ToEmail sampleApp ?dto"]
  note u = C1_encrypted_before_persistence [where s = sampleApp and E = sampleEngine and dto = ?dto
      and schema = "''user1''" and mem = "[?old]" and db = "()" and email = 0 and field = "''Password''"
      and val = "''p@ss''" and m = "ToEmail sampleApp ?dto"]
  have e: "encryptEmail sampleEngine (ToEmail sampleApp ?dto)
      = \<lparr>Title = ''mail'', Email = ''a@b.c'', Password = ''AQILcUF0dA==''\<rparr>"
    by (simp add: sampleApp_simps)
  have h: "''Password'' \<in> set (SensitiveFields sampleEngine)"
      "0 < length (nonceFor sampleEngine ''Password'')"
      "length ''p@ss'' \<le> length (snd (aead_Seal (cipher sampleEngine) (AtRestKey sampleEngine)
                                     (nonceFor sampleEngine ''Password'') (bytesOf ''p@ss'')))"
    by (simp_all add: sampleEngine_def sampleAead_def firstByte_def bytesOf_def)
  have 1: "map handed (fst (CreateEmail sampleApp sampleEngine ?dto ''user1'' ([], ())))
     = [Some \<lparr>Title = ''mail'', Email = ''a@b.c'', Password = ''AQILcUF0dA==''\<rparr>]"
    using c unfolding e by blast
  have 2: "map handed (fst (UpdateEmail sampleApp sampleEngine 0 ?dto ''user1'' ([?old], ())))
     = [Some \<lparr>Title = ''mail'', Email = ''a@b.c'', Password = ''AQILcUF0dA==''\<rparr>]"
    using u unfolding e by simp
  have 3: "encryptValue sampleEngine ''Password'' ''p@ss'' \<noteq> ''p@ss''"
    using c h by blast
  from 1 2 3 h show ?thesis by simp
qed

text \<open>
  C2, as the specification states it, fails. The request below carries a new title only:
  its email and password are the empty strings an omitted field decodes to. The record
  handed to \<open>Update\<close> has lost the stored email, and its stored password blob
  \<open>AQILcUF0dA==\<close> has been replaced by \<open>AQIH\<close>, the encryption of the empty string.
\<close>

theorem C2_update_replaces_omitted_fields_counterexample:
  "map handed (fst (UpdateEmail sampleApp sampleEngine 0
       \<lparr>dtoTitle = ''new title'', dtoEmail = [], dtoPassword = []\<rparr> ''user1''
       ([\<lparr>Title = ''old title'', Email = ''a@b.c'', Password = ''AQILcUF0dA==''\<rparr>], ())))
     = [Some \<lparr>Title = ''new title'', Email = [], Password = ''AQIH''\<rparr>]"
  by (simp add: UpdateEmail_eq sampleApp_simps)

text \<open>
  C2, amended. For every update of an existing record with an incoming DTO, the title, the
  email and the password of the record handed to \<open>Update\<close> are the engine's encryption
  of the corresponding values of the record built from the DTO, whatever the DTO carries
  for them and whatever was stored before; every other field of the existing record keeps
  its stored value.
\<close>

theorem C2_update_replaces_named_fields:
  "email < length mem \<longrightarrow>
     map handed (fst (UpdateEmail s E email dto schema (mem, db))) =
       [Some ((mem ! email)\<lparr>Title := encryptValue E ''Title'' (Title (ToEmail s dto)),
                             Email := encryptValue E ''Email'' (Email (ToEmail s dto)),
                             Password := encryptValue E ''Password'' (Password (ToEmail s dto))\<rparr>)]"
  by (simp add: UpdateEmail_eq load_def nth_append encryptEmail_fields)

theorem C2_update_replaces_named_fields_witness:
  "(0::nat) < length [\<lparr>Title = ''old title'', Email = ''a@b.c'', Password = ''AQILcUF0dA=='', \<dots> = (42::nat)\<rparr>]
   \<and> map handed (fst (UpdateEmail
         \<lparr>ToEmail = (\<lambda>dto. \<lparr>Title = dtoTitle dto, Email = dtoEmail dto, Password = dtoPassword dto,
                              \<dots> = (0::nat)\<rparr>),
          Emails_Create = (\<lambda>p schema st. (Inr p, st)),
          Emails_Update = (\<lambda>p schema st. (Inr p, st))\<rparr>
         sampleEngine 0
         \<lparr>dtoTitle = ''new title'', dtoEmail = ''c@d.e'', dtoPassword = []\<rparr> ''user1''
         ([\<lparr>Title = ''old title'', Email = ''a@b.c'', Password = ''AQILcUF0dA=='', \<dots> = (42::nat)\<rparr>], ())))
     = [Some \<lparr>Title = ''new title'', Email = ''c@d.e'', Password = ''AQIH'', \<dots> = (42::nat)\<rparr>]"
proof -
  let ?s = "\<lparr>ToEmail = (\<lambda>dto. \<lparr>Title = dtoTitle dto, Email = dtoEmail dto, Password = dtoPassword dto,
                              \<dots> = (0::nat)\<rparr>),
          Emails_Create = (\<lambda>p schema st. (Inr p, st :: nat Email_scheme list \<times> unit)),
          Emails_Update = (\<lambda>p schema st. (Inr p, st))\<rparr>"
  note c = C2_update_replaces_named_fields [where s = ?s and E = sampleEngine
      and dto = "\<lparr>dtoTitle = ''new title'', dtoEmail = ''c@d.e'', dtoPassword = []\<rparr>"
      and schema = "''user1''" and db = "()" and email = 0
      and mem = "[\<lparr>Title = ''old title'', Email = ''a@b.c'', Password = ''AQILcUF0dA=='', \<dots> = (42::nat)\<rparr>]"]
  show ?thesis
    using c by (simp add: sampleApp_simps)
qed

text \<open>
  C3, as the specification states it, fails for the update flow: the record the caller
  passed in (at address 0) has a different title, email and password in the memory that
  \<open>Update\<close> receives.
\<close>

theorem C3_update_mutates_existing_record_counterexample:
  "load [\<lparr>Title = ''old title'', Email = ''a@b.c'', Password = ''AQIH''\<rparr>] 0
     = Some \<lparr>Title = ''old title'', Email = ''a@b.c'', Password = ''AQIH''\<rparr>
   \<and> map (\<lambda>call. load (memoryAt call) 0)
       (fst (UpdateEmail sampleApp sampleEngine 0
          \<lparr>dtoTitle = ''new title'', dtoEmail = ''c@d.e'', dtoPassword = ''p@ss''\<rparr> ''user1''
          ([\<lparr>Title = ''old title'', Email = ''a@b.c'', Password = ''AQIH''\<rparr>], ())))
     = [Some \<lparr>Title = ''new title'', Email = ''c@d.e'', Password = ''AQILcUF0dA==''\<rparr>]"
  by (simp add: UpdateEmail_eq sampleApp_simps)

text \<open>
  C3, amended. Encrypting a record with the Model Encryption Engine returns a new record
  at a new address and leaves the record it was given unchanged. The create flow changes
  no record that existed before the call. The update flow leaves the record built from the
  DTO and every other record unchanged, but writes the encrypted title, email and
  password into the caller-supplied existing record in place before it hands that record
  to \<open>Update\<close>; the other fields of that record keep their values.
\<close>

theorem C3_encryption_allocates_update_writes_in_place:
  "(load mem p = Some m \<longrightarrow>
      EncryptModel E p mem = Some (length mem, mem @ [encryptEmail E m])
      \<and> load (mem @ [encryptEmail E m]) p = Some m)
   \<and> map (\<lambda>call. take (length mem) (memoryAt call)) (fst (CreateEmail s E dto schema (mem, db))) = [mem]
   \<and> (email < length mem \<longrightarrow>
        map memoryAt (fst (UpdateEmail s E email dto schema (mem, db))) =
          [(mem @ [ToEmail s dto, encryptEmail E (ToEmail s dto)])
             [email := (mem ! email)\<lparr>Title := Title (encryptEmail E (ToEmail s dto)),
                                     Email := Email (encryptEmail E (ToEmail s dto)),
                                     Password := Password (encryptEmail E (ToEmail s dto))\<rparr>]]
        \<and> (\<forall>call\<in>set (fst (UpdateEmail s E email dto schema (mem, db))).
              (\<forall>q<length mem. q \<noteq> email \<longrightarrow> load (memoryAt call) q = load mem q)
              \<and> load (memoryAt call) (length mem) = Some (ToEmail s dto)
              \<and> map_option Email.more (load (memoryAt call) email) = map_option Email.more (load mem email)))"
proof -
  have a: "load mem p = Some m \<longrightarrow>
      EncryptModel E p mem = Some (length mem, mem @ [encryptEmail E m])
      \<and> load (mem @ [encryptEmail E m]) p = Some m"
    by (auto simp add: EncryptModel_def new_def load_def nth_append split: if_splits)
  have b: "map (\<lambda>call. take (length mem) (memoryAt call)) (fst (CreateEmail s E dto schema (mem, db))) = [mem]"
    by (simp add: CreateEmail_eq)
  have c: "email < length mem \<longrightarrow>
        map memoryAt (fst (UpdateEmail s E email dto schema (mem, db))) =
          [(mem @ [ToEmail s dto, encryptEmail E (ToEmail s dto)])
             [email := (mem ! email)\<lparr>Title := Title (encryptEmail E (ToEmail s dto)),
                                     Email := Email (encryptEmail E (ToEmail s dto)),
                                     Password := Password (encryptEmail E (ToEmail s dto))\<rparr>]]
        \<and> (\<forall>call\<in>set (fst (UpdateEmail s E email dto schema (mem, db))).
              (\<forall>q<length mem. q \<noteq> email \<longrightarrow> load (memoryAt call) q = load mem q)
              \<and> load (memoryAt call) (length mem) = Some (ToEmail s dto)
              \<and> map_option Email.more (load (memoryAt call) email) = map_option Email.more (load mem email))"
    by (simp add: UpdateEmail_eq load_def nth_append nth_list_update)
  from a b c show ?thesis by blast
qed

theorem C3_encryption_allocates_update_writes_in_place_witness:
  "load [\<lparr>Title = ''old title'', Email = ''a@b.c'', Password = ''p@ss''\<rparr>] 0
     = Some \<lparr>Title = ''old title'', Email = ''a@b.c'', Password = ''p@ss''\<rparr>
   \<and> EncryptModel sampleEngine 0 [\<lparr>Title = ''old title'', Email = ''a@b.c'', Password = ''p@ss''\<rparr>]
     = Some (1, [\<lparr>Title = ''old title'', Email = ''a@b.c'', Password = ''p@ss''\<rparr>,
                 \<lparr>Title = ''old title'', Email = ''a@b.c'', Password = ''AQILcUF0dA==''\<rparr>])
   \<and> (0::nat) < length [\<lparr>Title = ''old title'', Email = ''a@b.c'', Password = ''AQIH''\<rparr>]
   \<and> map memoryAt (fst (UpdateEmail sampleApp sampleEngine 0
          \<lparr>dtoTitle = ''new title'', dtoEmail = ''c@d.e'', dtoPassword = ''p@ss''\<rparr> ''user1''
          ([\<lparr>Title = ''old title'', Email = ''a@b.c'', Password = ''AQIH''\<rparr>], ())))
     = [[\<lparr>Title = ''new title'', Email = ''c@d.e'', Password = ''AQILcUF0dA==''\<rparr>,
         \<lparr>Title = ''new title'', Email = ''c@d.e'', Password = ''p@ss''\<rparr>,
         \<lparr>Title = ''new title'', Email = ''c@d.e'', Password = ''AQILcUF0dA==''\<rparr>]]"
proof -
  let ?m = "\<lparr>Title = ''old title'', Email = ''a@b.c'', Password = ''p@ss''\<rparr>"
  let ?old = "\<lparr>Title = ''old title'', Email = ''a@b.c'', Password = ''AQIH''\<rparr>"
  let ?dto = "\<lparr>dtoTitle = ''new title'', dtoEmail = ''c@d.e'', dtoPassword = ''p@ss''\<rparr>"
  note a = C3_encryption_allocates_update_writes_in_place [where mem = "[?m]" and p = 0 and m = ?m
      and E = sampleEngine and s = sampleApp and dto = ?dto and schema = "''user1''" and db = "()"
      and email = 0]
  note b = C3_encryption_allocates_update_writes_in_place [where mem = "[?old]" and p = 0 and m = ?old
      and E = sampleEngine and s = sampleApp and dto = ?dto and schema = "''user1''" and db = "()"
      and email = 0]
  have l: "load [?m] 0 = Some ?m"
    by (simp add: load_def)
  have 1: "EncryptModel sampleEngine 0 [?m]
     = Some (1, [?m, \<lparr>Title = ''old title'', Email = ''a@b.c'', Password = ''AQILcUF0dA==''\<rparr>])"
    using a l by (simp add: sampleApp_simps)
  have 2: "map memoryAt (fst (UpdateEmail sampleApp sampleEngine 0 ?dto ''user1'' ([?old], ())))
     = [[\<lparr>Title = ''new title'', Email = ''c@d.e'', Password = ''AQILcUF0dA==''\<rparr>,
         \<lparr>Title = ''new title'', Email = ''c@d.e'', Password = ''p@ss''\<rparr>,
         \<lparr>Title = ''new title'', Email = ''c@d.e'', Password = ''AQILcUF0dA==''\<rparr>]]"
    using b by (simp add: sampleApp_simps)
  from l 1 2 show ?thesis by simp
qed

end

